theory Spec2Isabelle
  imports Main
begin

section \<open>Progress updates of a media item\<close>

text \<open>
  The route \<^verbatim>\<open>_dashboard.media.item.$id._index.tsx\<close> has an action
  \<^verbatim>\<open>progressUpdate\<close> that turns one submitted form into a list of progress
  records (\<^verbatim>\<open>updates\<close>) and sends the list in one request. This section embeds the
  part of the action that builds the list.

  JavaScript numbers stand for season, episode and chapter numbers here; they are
  modelled as \<^typ>\<open>int\<close>, which agrees with the source as long as the values are
  integers of magnitude at most \<open>2 ^ 53\<close>.
\<close>

subsection \<open>Data\<close>

text \<open>
  Modelled from the spec: the enumeration \<^verbatim>\<open>MetadataLot\<close> is generated code that is
  not part of the sources at hand; the constructors are the media kinds the specification
  lists.
\<close>

datatype MetadataLot =
  Book | Movie | Show | Podcast | Anime | Manga | AudioBook | VisualNovel | VideoGame | Custom

text \<open>
  Modelled from the spec: the last five fields of the object \<^verbatim>\<open>submission\<close> come from
  \<^verbatim>\<open>MetadataSpecificsSchema\<close>, which is declared outside the sources at hand; the
  specification gives them as optional integers. The other fields are as
  \<^verbatim>\<open>progressUpdateSchema\<close> types them: every one but \<^verbatim>\<open>metadataLot\<close> and
  \<^verbatim>\<open>metadataId\<close> is optional. The field \<open>redirectTo\<close> stands for the one whose
  name is the constant \<^verbatim>\<open>redirectToQueryParam\<close>.
\<close>

record submission =
  metadataLot :: MetadataLot
  metadataId :: int
  date :: "string option"
  redirectTo :: "string option"
  showSpecifics :: "string option"
  showAllSeasonsBefore :: "bool option"
  podcastSpecifics :: "string option"
  onlySeason :: "bool option"
  completeShow :: "bool option"
  completePodcast :: "bool option"
  animeAllEpisodesBefore :: "bool option"
  mangaAllChaptersBefore :: "bool option"
  showSeasonNumber :: "int option"
  showEpisodeNumber :: "int option"
  podcastEpisodeNumber :: "int option"
  animeEpisodeNumber :: "int option"
  mangaChapterNumber :: "int option"

text \<open>
  One element of \<^verbatim>\<open>updates\<close>: the object \<^verbatim>\<open>variables\<close>, possibly with fields
  overwritten. The fields carry the names of the source with the suffix \<open>_u\<close>, since
  the submission has fields of the same names.
\<close>

record progress_update =
  metadataId_u :: int
  progress_u :: int
  date_u :: "string option"
  showSeasonNumber_u :: "int option"
  showEpisodeNumber_u :: "int option"
  podcastEpisodeNumber_u :: "int option"
  animeEpisodeNumber_u :: "int option"
  mangaChapterNumber_u :: "int option"

text \<open>The element types of \<^verbatim>\<open>showSpecificsSchema\<close> and \<^verbatim>\<open>podcastSpecificsSchema\<close>.\<close>

record season =
  seasonNumber :: int
  episodes :: "int list"

record podcast_episode =
  episodeNumber :: int

text \<open>
  What the actions can throw before they send anything: a validation error that names a
  field, the syntax error of \<^verbatim>\<open>JSON.parse\<close>, the error of a schema and a failed
  \<^verbatim>\<open>invariant\<close> with its message. The last two values belong to the model of the
  decoding and are explained there.
\<close>

datatype error =
  ValidationError string
  | SyntaxError
  | ZodError
  | InvariantError string
  | Unsupported
  | OutOfFuel

subsection \<open>Truthiness\<close>

text \<open>
  \<^verbatim>\<open>if (x)\<close> on an optional boolean holds only for \<^verbatim>\<open>true\<close>. On an optional number
  it holds for every number but \<open>0\<close>; the branches below write that test out.
\<close>

definition truthy :: "bool option \<Rightarrow> bool" where
  "truthy b = (b = Some True)"

subsection \<open>Building the list\<close>

definition variables :: "submission \<Rightarrow> progress_update" where
  "variables sub =
     \<lparr> metadataId_u = metadataId sub,
       progress_u = 100,
       date_u = date sub,
       showSeasonNumber_u = showSeasonNumber sub,
       showEpisodeNumber_u = showEpisodeNumber sub,
       podcastEpisodeNumber_u = podcastEpisodeNumber sub,
       animeEpisodeNumber_u = animeEpisodeNumber sub,
       mangaChapterNumber_u = mangaChapterNumber sub \<rparr>"

text \<open>
  \<^verbatim>\<open>for (let i = 1; i <= n; i++) updates.push(mk i)\<close>, started at any \<open>i\<close>.
\<close>

function for_upto :: "int \<Rightarrow> int \<Rightarrow> (int \<Rightarrow> progress_update) \<Rightarrow> progress_update list
    \<Rightarrow> progress_update list" where
  "for_upto i n mk updates =
     (if i \<le> n then for_upto (i + 1) n mk (updates @ [mk i]) else updates)"
  by pat_completeness auto
termination
  by (relation "measure (\<lambda>(i, n, mk, updates). nat (n + 1 - i))") auto

declare for_upto.simps [simp del]

text \<open>\<^verbatim>\<open>for (const episode of es) updates.push(mk episode)\<close>.\<close>

fun for_episodes :: "(int \<Rightarrow> progress_update) \<Rightarrow> int list \<Rightarrow> progress_update list
    \<Rightarrow> progress_update list" where
  "for_episodes mk [] updates = updates"
| "for_episodes mk (episode # es) updates = for_episodes mk es (updates @ [mk episode])"

definition show_record :: "progress_update \<Rightarrow> int \<Rightarrow> int \<Rightarrow> progress_update" where
  "show_record vars s episode =
     vars\<lparr> showSeasonNumber_u := Some s, showEpisodeNumber_u := Some episode \<rparr>"

text \<open>The loop of the \<^verbatim>\<open>completeShow\<close> branch: every season, every episode.\<close>

fun for_seasons :: "progress_update \<Rightarrow> season list \<Rightarrow> progress_update list
    \<Rightarrow> progress_update list" where
  "for_seasons vars [] updates = updates"
| "for_seasons vars (s # ss) updates =
     for_seasons vars ss (for_episodes (show_record vars (seasonNumber s)) (episodes s) updates)"

text \<open>
  The loop of the \<^verbatim>\<open>showAllSeasonsBefore\<close> branch: the same, with
  \<^verbatim>\<open>if (season.seasonNumber > selectedSeason.seasonNumber) break;\<close> in front.
\<close>

fun for_seasons_before :: "progress_update \<Rightarrow> int \<Rightarrow> season list \<Rightarrow> progress_update list
    \<Rightarrow> progress_update list" where
  "for_seasons_before vars selected [] updates = updates"
| "for_seasons_before vars selected (s # ss) updates =
     (if seasonNumber s > selected then updates
      else for_seasons_before vars selected ss
             (for_episodes (show_record vars (seasonNumber s)) (episodes s) updates))"

text \<open>
  The records of a list of seasons, season by season and episode by episode: what the
  two loops above are expected to append.
\<close>

definition season_records :: "progress_update \<Rightarrow> season list \<Rightarrow> progress_update list" where
  "season_records vars ss =
     concat (map (\<lambda>s. map (show_record vars (seasonNumber s)) (episodes s)) ss)"

text \<open>
  The mutable pair the branches share: the list built so far and the flag
  \<^verbatim>\<open>needsFinalUpdate\<close>.
\<close>

record acc =
  updates :: "progress_update list"
  needsFinalUpdate :: bool

text \<open>
  The blocks of the action in the order of the source: anime (lines 305 to 317), manga
  (318 to 330), show (331 to 370, with the two blocks for a complete show and for a
  single season inside), podcast (371 to 381) and the final record (382). Each takes
  the pair and returns it updated; the block for a single season can throw.
\<close>

definition anime_branch :: "submission \<Rightarrow> acc \<Rightarrow> acc" where
  "anime_branch sub a =
     (if metadataLot sub = Anime then
        (case animeEpisodeNumber sub of
           None \<Rightarrow> a
         | Some n \<Rightarrow>
             if n \<noteq> 0 then
               (if truthy (animeAllEpisodesBefore sub)
                then \<lparr> updates = for_upto 1 n
                          (\<lambda>i. (variables sub)\<lparr> animeEpisodeNumber_u := Some i \<rparr>) (updates a),
                       needsFinalUpdate = False \<rparr>
                else a)
             else a)
      else a)"

definition manga_branch :: "submission \<Rightarrow> acc \<Rightarrow> acc" where
  "manga_branch sub a =
     (if metadataLot sub = Manga then
        (case mangaChapterNumber sub of
           None \<Rightarrow> a
         | Some n \<Rightarrow>
             if n \<noteq> 0 then
               (if truthy (mangaAllChaptersBefore sub)
                then \<lparr> updates = for_upto 1 n
                          (\<lambda>i. (variables sub)\<lparr> mangaChapterNumber_u := Some i \<rparr>) (updates a),
                       needsFinalUpdate = False \<rparr>
                else a)
             else a)
      else a)"

definition complete_show_branch :: "submission \<Rightarrow> season list \<Rightarrow> acc \<Rightarrow> acc" where
  "complete_show_branch sub specifics a =
     (if truthy (completeShow sub)
      then \<lparr> updates = for_seasons (variables sub) specifics (updates a),
             needsFinalUpdate = False \<rparr>
      else a)"

text \<open>
  \<^verbatim>\<open>showSpecifics.find((s) => s.seasonNumber === submission.showSeasonNumber)\<close>: the
  first season with the submitted number, none when the number is absent.
\<close>

definition selectedSeason :: "submission \<Rightarrow> season list \<Rightarrow> season option" where
  "selectedSeason sub specifics =
     find (\<lambda>s. Some (seasonNumber s) = showSeasonNumber sub) specifics"

definition only_season_branch :: "submission \<Rightarrow> season list \<Rightarrow> acc \<Rightarrow> error + acc" where
  "only_season_branch sub specifics a =
     (if truthy (onlySeason sub)
      then (case selectedSeason sub specifics of
              None \<Rightarrow> Inl (InvariantError ''No season selected'')
            | Some sel \<Rightarrow>
                Inr \<lparr> updates =
                        (if truthy (showAllSeasonsBefore sub)
                         then for_seasons_before (variables sub) (seasonNumber sel) specifics
                                (updates a)
                         else for_episodes
                                (\<lambda>episode. (variables sub)\<lparr> showEpisodeNumber_u := Some episode \<rparr>)
                                (episodes sel) (updates a)),
                      needsFinalUpdate = False \<rparr>)
      else Inr a)"

definition show_branch :: "submission \<Rightarrow> season list \<Rightarrow> acc \<Rightarrow> error + acc" where
  "show_branch sub specifics a =
     (if metadataLot sub = Show
      then only_season_branch sub specifics (complete_show_branch sub specifics a)
      else Inr a)"

definition podcast_branch :: "submission \<Rightarrow> podcast_episode list \<Rightarrow> acc \<Rightarrow> acc" where
  "podcast_branch sub specifics a =
     (if metadataLot sub = Podcast then
        (if truthy (completePodcast sub)
         then \<lparr> updates = for_episodes
                   (\<lambda>episode. (variables sub)\<lparr> podcastEpisodeNumber_u := Some episode \<rparr>)
                   (map episodeNumber specifics) (updates a),
                needsFinalUpdate = False \<rparr>
         else a)
      else a)"

definition final_update :: "submission \<Rightarrow> acc \<Rightarrow> progress_update list" where
  "final_update sub a =
     (if needsFinalUpdate a then updates a @ [variables sub] else updates a)"

text \<open>
  Lines 287 to 382 of the action without the two statements that decode the structure
  fields: from the submission and the decoded structures to the list that is sent, or
  to the error thrown. The specification calls this step \<open>expand\<close>.
\<close>

definition expand :: "submission \<Rightarrow> season list \<Rightarrow> podcast_episode list
    \<Rightarrow> error + progress_update list" where
  "expand sub show_specifics podcast_specifics =
     (let a0 = \<lparr> updates = [], needsFinalUpdate = True \<rparr>;
          a1 = anime_branch sub a0;
          a2 = manga_branch sub a1
      in case show_branch sub show_specifics a2 of
           Inl e \<Rightarrow> Inl e
         | Inr a3 \<Rightarrow> Inr (final_update sub (podcast_branch sub podcast_specifics a3)))"

section \<open>Decoding the structure fields\<close>

text \<open>
  The form carries the seasons of a show and the episodes of a podcast as JSON text in
  the fields \<^verbatim>\<open>showSpecifics\<close> and \<^verbatim>\<open>podcastSpecifics\<close>. The action
  decodes both with \<^verbatim>\<open>JSON.parse\<close> and validates the results against two schemas
  before any branch runs.
\<close>

subsection \<open>\<^verbatim>\<open>JSON.parse\<close>\<close>

text \<open>
  \<^verbatim>\<open>JSON.parse\<close> is a built-in of the language. It is modelled by a recursive-descent
  parser for the JSON grammar: whitespace, the three literals, numbers, strings with
  their escapes, arrays and objects. The answer is the value the built-in returns, or
  \<^const>\<open>SyntaxError\<close> when the built-in rejects the text.

  The parser recurses on a fuel argument and answers \<^const>\<open>OutOfFuel\<close> when it
  runs out. \<open>JSON_parse\<close> supplies enough fuel for the text at hand, so that it never
  gives this answer: see \<open>JSON_parse_fuel\<close> below.
\<close>

text \<open>
  A number of the language is a double. The values a JSON text can denote are the
  finite doubles, written here as an integer or as \<open>m / 2 ^ e\<close> with \<open>m\<close> odd and
  \<open>e \<ge> 1\<close> (\<open>Dyadic m e\<close>), the negative zero and the two infinities. Every double
  has exactly one such form.
\<close>

datatype number =
  Integer int
  | Dyadic int nat
  | NegativeZero
  | Infinity
  | NegativeInfinity

text \<open>
  A string of the language is a sequence of 16-bit code units. A character of a form
  field stands for the code unit of its code, so the texts of the model are the strings
  whose code units are below 256; a \<^verbatim>\<open>\u\<close> escape can denote any code unit, and the
  strings inside a decoded value hold their code units as numbers. \<open>units\<close> gives the
  code units of a text written in the theory.
\<close>

type_synonym code_units = "nat list"

definition units :: "string \<Rightarrow> code_units" where
  "units s = map of_char s"

text \<open>
  An object holds its own properties in the order the language enumerates them: the
  keys that are array indices in ascending order, then the other keys in the order of
  their creation.
\<close>

datatype json =
  JNull
  | JBool bool
  | JNumber number
  | JString code_units
  | JArray "json list"
  | JObject "(code_units \<times> json) list"

definition is_ws :: "char \<Rightarrow> bool" where
  "is_ws c = (c = CHR 0x20 \<or> c = CHR 0x09 \<or> c = CHR 0x0A \<or> c = CHR 0x0D)"

definition skip_ws :: "string \<Rightarrow> string" where
  "skip_ws cs = dropWhile is_ws cs"

definition is_digit :: "char \<Rightarrow> bool" where
  "is_digit c = ((48::nat) \<le> of_char c \<and> (of_char c :: nat) \<le> 57)"

definition digit_value :: "char \<Rightarrow> int" where
  "digit_value c = of_char c - 48"

definition digits_value :: "string \<Rightarrow> int" where
  "digits_value ds = foldl (\<lambda>n c. 10 * n + digit_value c) 0 ds"

definition hex_value :: "char \<Rightarrow> nat option" where
  "hex_value c =
     (let n = (of_char c :: nat)
      in if 48 \<le> n \<and> n \<le> 57 then Some (n - 48)
         else if 65 \<le> n \<and> n \<le> 70 then Some (n - 55)
         else if 97 \<le> n \<and> n \<le> 102 then Some (n - 87)
         else None)"

definition hex4 :: "char \<Rightarrow> char \<Rightarrow> char \<Rightarrow> char \<Rightarrow> nat option" where
  "hex4 a b c d =
     (case (hex_value a, hex_value b, hex_value c, hex_value d) of
        (Some w, Some x, Some y, Some z) \<Rightarrow> Some (((w * 16 + x) * 16 + y) * 16 + z)
      | _ \<Rightarrow> None)"

definition map_result :: "('a \<Rightarrow> 'b) \<Rightarrow> error + ('a \<times> string) \<Rightarrow> error + ('b \<times> string)" where
  "map_result f r = (case r of Inl e \<Rightarrow> Inl e | Inr (x, rest) \<Rightarrow> Inr (f x, rest))"

text \<open>The characters of a string after its opening quote, up to the closing quote.\<close>

fun parse_chars :: "string \<Rightarrow> error + (code_units \<times> string)" where
  "parse_chars [] = Inl SyntaxError"
| "parse_chars (c # cs) =
     (if c = CHR 0x22 then Inr ([], cs)
      else if c = CHR 0x5C then
        (case cs of
           [] \<Rightarrow> Inl SyntaxError
         | e # r \<Rightarrow>
             if e = CHR 0x22 \<or> e = CHR 0x5C \<or> e = CHR ''/''
               then map_result ((#) (of_char e)) (parse_chars r)
             else if e = CHR ''b'' then map_result ((#) 0x08) (parse_chars r)
             else if e = CHR ''f'' then map_result ((#) 0x0C) (parse_chars r)
             else if e = CHR ''n'' then map_result ((#) 0x0A) (parse_chars r)
             else if e = CHR ''r'' then map_result ((#) 0x0D) (parse_chars r)
             else if e = CHR ''t'' then map_result ((#) 0x09) (parse_chars r)
             else if e = CHR ''u'' then
               (case r of
                  h1 # h2 # h3 # h4 # r' \<Rightarrow>
                    (case hex4 h1 h2 h3 h4 of
                       None \<Rightarrow> Inl SyntaxError
                     | Some n \<Rightarrow> map_result ((#) n) (parse_chars r'))
                | _ \<Rightarrow> Inl SyntaxError)
             else Inl SyntaxError)
      else if (of_char c :: nat) < 32 then Inl SyntaxError
      else map_result ((#) (of_char c)) (parse_chars cs))"

text \<open>
  The value of a number literal is the double nearest to the decimal it writes, a tie
  going to the even mantissa. For the positive rational \<open>N / Q\<close> the functions below
  find the exponent \<open>e\<close> of the double's last mantissa bit (at least \<open>- 1074\<close>, the
  exponent of the subnormal doubles), round \<open>N / (Q * 2 ^ e)\<close> to the mantissa \<open>n\<close>
  and answer \<open>n * 2 ^ e\<close>, or an infinity from \<open>2 ^ 1024\<close> on.
\<close>

function bit_length :: "int \<Rightarrow> int" where
  "bit_length n = (if n \<le> 0 then 0 else 1 + bit_length (n div 2))"
  by pat_completeness auto
termination
  by (relation "measure nat") auto

declare bit_length.simps [simp del]

definition floor_log2 :: "int \<Rightarrow> int \<Rightarrow> int" where
  "floor_log2 N Q =
     (let t = bit_length N - bit_length Q
      in if Q * 2 ^ nat t \<le> N * 2 ^ nat (- t) then t else t - 1)"

definition round_half_even :: "int \<Rightarrow> int \<Rightarrow> int" where
  "round_half_even X Y =
     (let q = X div Y; r = X mod Y
      in if 2 * r < Y then q
         else if Y < 2 * r then q + 1
         else if even q then q else q + 1)"

fun reduce :: "int \<Rightarrow> nat \<Rightarrow> number" where
  "reduce n 0 = Integer n"
| "reduce n (Suc e) = (if even n then reduce (n div 2) e else Dyadic n (Suc e))"

definition nearest_double :: "bool \<Rightarrow> int \<Rightarrow> int \<Rightarrow> number" where
  "nearest_double negative N Q =
     (let e = max (floor_log2 N Q - 52) (- 1074);
          n = round_half_even (N * 2 ^ nat (- e)) (Q * 2 ^ nat e)
      in if n = 0 then (if negative then NegativeZero else Integer 0)
         else if 971 < e \<or> (e = 971 \<and> n = 2 ^ 53)
           then (if negative then NegativeInfinity else Infinity)
         else if 0 \<le> e then Integer ((if negative then - n else n) * 2 ^ nat e)
         else reduce (if negative then - n else n) (nat (- e)))"

definition number_value :: "bool \<Rightarrow> int \<Rightarrow> int \<Rightarrow> number" where
  "number_value negative D k =
     (if D = 0 then (if negative then NegativeZero else Integer 0)
      else if 0 \<le> k then nearest_double negative (D * 10 ^ nat k) 1
      else nearest_double negative D (10 ^ nat (- k)))"

text \<open>
  A number literal: an optional minus sign, then \<^verbatim>\<open>0\<close> or a run of digits that does
  not start with \<^verbatim>\<open>0\<close>, then an optional fraction and an optional exponent. The
  fraction is returned as its digits, the exponent as its value.
\<close>

definition parse_fraction :: "string \<Rightarrow> (string \<times> string) option" where
  "parse_fraction cs =
     (case cs of
        [] \<Rightarrow> Some ([], cs)
      | c # r \<Rightarrow>
          if c = CHR ''.''
          then (if takeWhile is_digit r = [] then None
                else Some (takeWhile is_digit r, dropWhile is_digit r))
          else Some ([], cs))"

definition parse_exponent :: "string \<Rightarrow> (int \<times> string) option" where
  "parse_exponent cs =
     (case cs of
        [] \<Rightarrow> Some (0, cs)
      | c # r \<Rightarrow>
          if c = CHR ''e'' \<or> c = CHR ''E'' then
            (let minus = (take 1 r = ''-'');
                 r1 = (if take 1 r = ''-'' \<or> take 1 r = ''+'' then drop 1 r else r)
             in if takeWhile is_digit r1 = [] then None
                else Some ((if minus then - digits_value (takeWhile is_digit r1)
                            else digits_value (takeWhile is_digit r1)),
                           dropWhile is_digit r1))
          else Some (0, cs))"

definition parse_number :: "string \<Rightarrow> error + (json \<times> string)" where
  "parse_number cs =
     (let negative = (take 1 cs = ''-'');
          cs1 = (if negative then drop 1 cs else cs);
          ds = (if take 1 cs1 = ''0'' then ''0'' else takeWhile is_digit cs1)
      in if ds = [] then Inl SyntaxError
         else
           (case parse_fraction (drop (length ds) cs1) of
              None \<Rightarrow> Inl SyntaxError
            | Some (fs, cs2) \<Rightarrow>
                (case parse_exponent cs2 of
                   None \<Rightarrow> Inl SyntaxError
                 | Some (x, cs3) \<Rightarrow>
                     Inr (JNumber (number_value negative (digits_value (ds @ fs))
                                     (x - int (length fs))), cs3))))"

text \<open>
  The members of an object literal become properties one after the other. A key that
  the object has already keeps its place and takes the new value; a new key that is an
  array index (the decimal form of an integer from \<open>0\<close> to \<open>2 ^ 32 - 2\<close>) goes
  among the array indices in ascending order; any other new key goes to the end.
\<close>

definition array_index :: "code_units \<Rightarrow> int option" where
  "array_index k =
     (let i = foldl (\<lambda>n u. 10 * n + (int u - 48)) 0 k
      in if k \<noteq> [] \<and> list_all (\<lambda>u. 48 \<le> u \<and> u \<le> 57) k
            \<and> (hd k \<noteq> 48 \<or> length k = 1) \<and> i \<le> 4294967294
         then Some i else None)"

fun insert_index :: "int \<Rightarrow> code_units \<times> json \<Rightarrow> (code_units \<times> json) list
    \<Rightarrow> (code_units \<times> json) list" where
  "insert_index i kv [] = [kv]"
| "insert_index i kv (m # ms) =
     (case array_index (fst m) of
        None \<Rightarrow> kv # m # ms
      | Some j \<Rightarrow> if j < i then m # insert_index i kv ms else kv # m # ms)"

definition define_property :: "(code_units \<times> json) list \<Rightarrow> code_units \<times> json
    \<Rightarrow> (code_units \<times> json) list" where
  "define_property ms kv =
     (if fst kv \<in> fst ` set ms
      then map (\<lambda>m. if fst m = fst kv then kv else m) ms
      else (case array_index (fst kv) of
              None \<Rightarrow> ms @ [kv]
            | Some i \<Rightarrow> insert_index i kv ms))"

definition own_properties :: "(code_units \<times> json) list \<Rightarrow> (code_units \<times> json) list" where
  "own_properties members = foldl define_property [] members"

fun parse_value :: "nat \<Rightarrow> string \<Rightarrow> error + (json \<times> string)"
  and parse_elements :: "nat \<Rightarrow> string \<Rightarrow> error + (json list \<times> string)"
  and parse_members :: "nat \<Rightarrow> string \<Rightarrow> error + ((code_units \<times> json) list \<times> string)"
where
  "parse_value 0 cs = Inl OutOfFuel"
| "parse_value (Suc fuel) cs =
     (case skip_ws cs of
        [] \<Rightarrow> Inl SyntaxError
      | c # r \<Rightarrow>
          if c = CHR ''['' then
            (if take 1 (skip_ws r) = '']'' then Inr (JArray [], drop 1 (skip_ws r))
             else map_result JArray (parse_elements fuel r))
          else if c = CHR ''{'' then
            (if take 1 (skip_ws r) = ''}'' then Inr (JObject [], drop 1 (skip_ws r))
             else map_result (\<lambda>members. JObject (own_properties members))
                    (parse_members fuel r))
          else if c = CHR 0x22 then map_result JString (parse_chars r)
          else if c = CHR ''-'' \<or> is_digit c then parse_number (c # r)
          else if take 4 (c # r) = ''null'' then Inr (JNull, drop 4 (c # r))
          else if take 4 (c # r) = ''true'' then Inr (JBool True, drop 4 (c # r))
          else if take 5 (c # r) = ''false'' then Inr (JBool False, drop 5 (c # r))
          else Inl SyntaxError)"
| "parse_elements 0 cs = Inl OutOfFuel"
| "parse_elements (Suc fuel) cs =
     (case parse_value fuel cs of
        Inl e \<Rightarrow> Inl e
      | Inr (v, r) \<Rightarrow>
          (case skip_ws r of
             [] \<Rightarrow> Inl SyntaxError
           | d # r' \<Rightarrow>
               if d = CHR '','' then map_result ((#) v) (parse_elements fuel r')
               else if d = CHR '']'' then Inr ([v], r')
               else Inl SyntaxError))"
| "parse_members 0 cs = Inl OutOfFuel"
| "parse_members (Suc fuel) cs =
     (case skip_ws cs of
        [] \<Rightarrow> Inl SyntaxError
      | q # r \<Rightarrow>
          if q = CHR 0x22 then
            (case parse_chars r of
               Inl e \<Rightarrow> Inl e
             | Inr (k, r1) \<Rightarrow>
                 (case skip_ws r1 of
                    [] \<Rightarrow> Inl SyntaxError
                  | colon # r2 \<Rightarrow>
                      if colon = CHR '':'' then
                        (case parse_value fuel r2 of
                           Inl e \<Rightarrow> Inl e
                         | Inr (v, r3) \<Rightarrow>
                             (case skip_ws r3 of
                                [] \<Rightarrow> Inl SyntaxError
                              | d # r4 \<Rightarrow>
                                  if d = CHR '','' then
                                    map_result ((#) (k, v)) (parse_members fuel r4)
                                  else if d = CHR ''}'' then Inr ([(k, v)], r4)
                                  else Inl SyntaxError))
                      else Inl SyntaxError))
          else Inl SyntaxError)"

definition JSON_parse :: "string \<Rightarrow> error + json" where
  "JSON_parse text =
     (case parse_value (2 * length text + 1) text of
        Inl e \<Rightarrow> Inl e
      | Inr (v, r) \<Rightarrow> if skip_ws r = [] then Inr v else Inl SyntaxError)"


subsection \<open>The schemas\<close>

text \<open>
  \<^verbatim>\<open>z.number()\<close> accepts a number, \<^verbatim>\<open>z.array(t)\<close> an array whose elements \<open>t\<close>
  accepts, \<^verbatim>\<open>z.object({...})\<close> an object that has the named properties; other
  properties are dropped. Any mismatch throws.

  Season and episode numbers are integers in the embedding. For a number that is not an
  integer the model of \<^verbatim>\<open>z.number()\<close> answers \<^const>\<open>Unsupported\<close>: the value stands
  for no behaviour of the source, and nothing below is stated about such a structure.
\<close>

definition z_number :: "json \<Rightarrow> error + int" where
  "z_number j =
     (case j of
        JNumber x \<Rightarrow> (case x of Integer n \<Rightarrow> Inr n | _ \<Rightarrow> Inl Unsupported)
      | _ \<Rightarrow> Inl ZodError)"

fun z_elements :: "(json \<Rightarrow> error + 'a) \<Rightarrow> json list \<Rightarrow> error + 'a list" where
  "z_elements t [] = Inr []"
| "z_elements t (j # js) =
     (case t j of
        Inl e \<Rightarrow> Inl e
      | Inr x \<Rightarrow> (case z_elements t js of Inl e \<Rightarrow> Inl e | Inr xs \<Rightarrow> Inr (x # xs)))"

definition z_array :: "(json \<Rightarrow> error + 'a) \<Rightarrow> json \<Rightarrow> error + 'a list" where
  "z_array t j = (case j of JArray js \<Rightarrow> z_elements t js | _ \<Rightarrow> Inl ZodError)"

definition z_property ::
    "(json \<Rightarrow> error + 'a) \<Rightarrow> (code_units \<times> json) list \<Rightarrow> string \<Rightarrow> error + 'a" where
  "z_property t members name =
     (case map_of members (units name) of None \<Rightarrow> Inl ZodError | Some j \<Rightarrow> t j)"

definition season_schema :: "json \<Rightarrow> error + season" where
  "season_schema j =
     (case j of
        JObject members \<Rightarrow>
          (case z_property z_number members ''seasonNumber'' of
             Inl e \<Rightarrow> Inl e
           | Inr n \<Rightarrow>
               (case z_property (z_array z_number) members ''episodes'' of
                  Inl e \<Rightarrow> Inl e
                | Inr es \<Rightarrow> Inr \<lparr> seasonNumber = n, episodes = es \<rparr>))
      | _ \<Rightarrow> Inl ZodError)"

definition showSpecificsSchema :: "json \<Rightarrow> error + season list" where
  "showSpecificsSchema j = z_array season_schema j"

definition podcast_episode_schema :: "json \<Rightarrow> error + podcast_episode" where
  "podcast_episode_schema j =
     (case j of
        JObject members \<Rightarrow>
          (case z_property z_number members ''episodeNumber'' of
             Inl e \<Rightarrow> Inl e
           | Inr n \<Rightarrow> Inr \<lparr> episodeNumber = n \<rparr>)
      | _ \<Rightarrow> Inl ZodError)"

definition podcastSpecificsSchema :: "json \<Rightarrow> error + podcast_episode list" where
  "podcastSpecificsSchema j = z_array podcast_episode_schema j"

subsection \<open>The action\<close>

text \<open>\<^verbatim>\<open>field || "[]"\<close>: an absent or empty field reads as the empty array.\<close>

definition or_empty_array :: "string option \<Rightarrow> string" where
  "or_empty_array field = (case field of None \<Rightarrow> ''[]'' | Some s \<Rightarrow> if s = [] then ''[]'' else s)"

definition decode :: "(json \<Rightarrow> error + 'a) \<Rightarrow> string option \<Rightarrow> error + 'a" where
  "decode schema field =
     (case JSON_parse (or_empty_array field) of Inl e \<Rightarrow> Inl e | Inr j \<Rightarrow> schema j)"

text \<open>
  The action from the parsed submission to the list it sends: the value is the argument
  of the one request, or the error thrown before the request.
\<close>

definition progressUpdate :: "submission \<Rightarrow> error + progress_update list" where
  "progressUpdate sub =
     (case decode showSpecificsSchema (showSpecifics sub) of
        Inl e \<Rightarrow> Inl e
      | Inr show_specifics \<Rightarrow>
          (case decode podcastSpecificsSchema (podcastSpecifics sub) of
             Inl e \<Rightarrow> Inl e
           | Inr podcast_specifics \<Rightarrow> expand sub show_specifics podcast_specifics))"

section \<open>Deploying an import\<close>

text \<open>
  The route \<^verbatim>\<open>_dashboard.settings.imports-and-exports._index.tsx\<close> has an action
  \<^verbatim>\<open>deployImport\<close> that reads the import source from the form, validates the
  fields of that source and sends one request whose input is the source together with
  one object of values.
\<close>

subsection \<open>Data\<close>

text \<open>
  Modelled from the spec: the enumeration \<^verbatim>\<open>ImportSource\<close> is generated code that is
  not part of the sources at hand; the constructors are the sources the specification
  lists, which are the ones the \<^verbatim>\<open>match\<close> of the action handles.
\<close>

datatype ImportSource =
  Goodreads | Trakt | Audiobookshelf | MediaTracker | Movary | StoryGraph | Mal | StrongApp
  | MediaJson | PeopleJson | WorkoutsJson | MeasurementsJson

text \<open>The form after the upload handler has run: every value is a string.\<close>

type_synonym form_data = "string \<rightharpoonup> string"

text \<open>
  The objects the schemas produce. Two pairs of schemas have the same shape and share
  a record. The values of the Strong app hold the mapping as text when they leave the
  schema and as JSON when they are sent.
\<close>

record goodreads_values =
  csvPath :: string

record trakt_values =
  username :: string

record url_and_key_values =
  apiUrl :: string
  apiKey :: string

record movary_values =
  ratings :: string
  history :: string
  watchlist :: string

record export_values =
  export :: string

record mal_values =
  animePath :: string
  mangaPath :: string

record 'm strong_app_values =
  exportPath :: string
  mapping :: 'm

text \<open>The input of the request: \<^verbatim>\<open>{ source, ...values }\<close>.\<close>

record deploy_import_job_input =
  source :: ImportSource
  goodreads :: "goodreads_values option"
  trakt :: "trakt_values option"
  audiobookshelf :: "url_and_key_values option"
  mediaTracker :: "url_and_key_values option"
  movary :: "movary_values option"
  storyGraph :: "export_values option"
  mal :: "mal_values option"
  strongApp :: "json strong_app_values option"
  json :: "export_values option"

subsection \<open>Validation\<close>

text \<open>
  Modelled from the spec: how a schema checks one field of the form is decided by
  \<^verbatim>\<open>processSubmission\<close>, which is defined outside the sources at hand. By the
  specification the validation fails with a \<^verbatim>\<open>ValidationError\<close> that names the field
  when a required field is absent or fails its format check. Whether a string is a
  well-formed URL is decided by the platform and taken as the parameter \<open>is_url\<close>.
\<close>

definition z_string :: "form_data \<Rightarrow> string \<Rightarrow> error + string" where
  "z_string formData field =
     (case formData field of None \<Rightarrow> Inl (ValidationError field) | Some v \<Rightarrow> Inr v)"

definition z_string_url :: "(string \<Rightarrow> bool) \<Rightarrow> form_data \<Rightarrow> string \<Rightarrow> error + string" where
  "z_string_url is_url formData field =
     (case formData field of
        None \<Rightarrow> Inl (ValidationError field)
      | Some v \<Rightarrow> if is_url v then Inr v else Inl (ValidationError field))"

definition and_then :: "error + 'a \<Rightarrow> ('a \<Rightarrow> error + 'b) \<Rightarrow> error + 'b" where
  "and_then r f = (case r of Inl e \<Rightarrow> Inl e | Inr x \<Rightarrow> f x)"

text \<open>
  Modelled from the spec: \<^verbatim>\<open>processSubmission\<close> validates the form against a schema
  and returns the validated object or fails. A schema is modelled as the function from
  the form to the validated object; it reads its fields in the order the source lists
  them.
\<close>

definition processSubmission :: "form_data \<Rightarrow> (form_data \<Rightarrow> error + 'a) \<Rightarrow> error + 'a" where
  "processSubmission formData schema = schema formData"

definition mediaTrackerImportFormSchema ::
    "(string \<Rightarrow> bool) \<Rightarrow> form_data \<Rightarrow> error + url_and_key_values" where
  "mediaTrackerImportFormSchema is_url formData =
     and_then (z_string_url is_url formData ''apiUrl'') (\<lambda>u.
     and_then (z_string formData ''apiKey'') (\<lambda>k.
     Inr \<lparr> apiUrl = u, apiKey = k \<rparr>))"

definition audiobookshelfImportFormSchema ::
    "(string \<Rightarrow> bool) \<Rightarrow> form_data \<Rightarrow> error + url_and_key_values" where
  "audiobookshelfImportFormSchema is_url formData =
     and_then (z_string_url is_url formData ''apiUrl'') (\<lambda>u.
     and_then (z_string formData ''apiKey'') (\<lambda>k.
     Inr \<lparr> apiUrl = u, apiKey = k \<rparr>))"

definition traktImportFormSchema :: "form_data \<Rightarrow> error + trakt_values" where
  "traktImportFormSchema formData =
     and_then (z_string formData ''username'') (\<lambda>v. Inr \<lparr> username = v \<rparr>)"

definition goodreadsImportFormSchema :: "form_data \<Rightarrow> error + goodreads_values" where
  "goodreadsImportFormSchema formData =
     and_then (z_string formData ''csvPath'') (\<lambda>v. Inr \<lparr> csvPath = v \<rparr>)"

definition movaryImportFormSchema :: "form_data \<Rightarrow> error + movary_values" where
  "movaryImportFormSchema formData =
     and_then (z_string formData ''ratings'') (\<lambda>r.
     and_then (z_string formData ''history'') (\<lambda>h.
     and_then (z_string formData ''watchlist'') (\<lambda>w.
     Inr \<lparr> ratings = r, history = h, watchlist = w \<rparr>)))"

definition storyGraphImportFormSchema :: "form_data \<Rightarrow> error + export_values" where
  "storyGraphImportFormSchema formData =
     and_then (z_string formData ''export'') (\<lambda>v. Inr \<lparr> export = v \<rparr>)"

definition strongAppImportFormSchema :: "form_data \<Rightarrow> error + string strong_app_values" where
  "strongAppImportFormSchema formData =
     and_then (z_string formData ''exportPath'') (\<lambda>p.
     and_then (z_string formData ''mapping'') (\<lambda>m.
     Inr \<lparr> exportPath = p, mapping = m \<rparr>))"

definition jsonImportFormSchema :: "form_data \<Rightarrow> error + export_values" where
  "jsonImportFormSchema formData =
     and_then (z_string formData ''export'') (\<lambda>v. Inr \<lparr> export = v \<rparr>)"

definition malImportFormSchema :: "form_data \<Rightarrow> error + mal_values" where
  "malImportFormSchema formData =
     and_then (z_string formData ''animePath'') (\<lambda>a.
     and_then (z_string formData ''mangaPath'') (\<lambda>m.
     Inr \<lparr> animePath = a, mangaPath = m \<rparr>))"

subsection \<open>The action\<close>

text \<open>The input with the source alone: no object of values is present.\<close>

definition only_source :: "ImportSource \<Rightarrow> deploy_import_job_input" where
  "only_source s =
     \<lparr> source = s, goodreads = None, trakt = None, audiobookshelf = None,
       mediaTracker = None, movary = None, storyGraph = None, mal = None,
       strongApp = None, json = None \<rparr>"

text \<open>
  The \<^verbatim>\<open>match\<close> over the source and the spread into the input of the request: the
  value is the input that is sent, or the error thrown before the request. The source
  arrives as a member of the enumeration.
\<close>

definition deployImport ::
    "(string \<Rightarrow> bool) \<Rightarrow> form_data \<Rightarrow> ImportSource \<Rightarrow> error + deploy_import_job_input" where
  "deployImport is_url formData s =
     (case s of
        Goodreads \<Rightarrow>
          and_then (processSubmission formData goodreadsImportFormSchema)
            (\<lambda>v. Inr ((only_source s)\<lparr> goodreads := Some v \<rparr>))
      | Trakt \<Rightarrow>
          and_then (processSubmission formData traktImportFormSchema)
            (\<lambda>v. Inr ((only_source s)\<lparr> trakt := Some v \<rparr>))
      | Audiobookshelf \<Rightarrow>
          and_then (processSubmission formData (audiobookshelfImportFormSchema is_url))
            (\<lambda>v. Inr ((only_source s)\<lparr> audiobookshelf := Some v \<rparr>))
      | MediaTracker \<Rightarrow>
          and_then (processSubmission formData (mediaTrackerImportFormSchema is_url))
            (\<lambda>v. Inr ((only_source s)\<lparr> mediaTracker := Some v \<rparr>))
      | Movary \<Rightarrow>
          and_then (processSubmission formData movaryImportFormSchema)
            (\<lambda>v. Inr ((only_source s)\<lparr> movary := Some v \<rparr>))
      | StoryGraph \<Rightarrow>
          and_then (processSubmission formData storyGraphImportFormSchema)
            (\<lambda>v. Inr ((only_source s)\<lparr> storyGraph := Some v \<rparr>))
      | Mal \<Rightarrow>
          and_then (processSubmission formData malImportFormSchema)
            (\<lambda>v. Inr ((only_source s)\<lparr> mal := Some v \<rparr>))
      | StrongApp \<Rightarrow>
          and_then (processSubmission formData strongAppImportFormSchema)
            (\<lambda>newLocal.
               and_then (JSON_parse (mapping newLocal))
                 (\<lambda>j. Inr ((only_source s)
                        \<lparr> strongApp := Some \<lparr> exportPath = exportPath newLocal, mapping = j \<rparr> \<rparr>)))
      | MediaJson \<Rightarrow>
          and_then (processSubmission formData jsonImportFormSchema)
            (\<lambda>v. Inr ((only_source s)\<lparr> json := Some v \<rparr>))
      | PeopleJson \<Rightarrow>
          and_then (processSubmission formData jsonImportFormSchema)
            (\<lambda>v. Inr ((only_source s)\<lparr> json := Some v \<rparr>))
      | WorkoutsJson \<Rightarrow>
          and_then (processSubmission formData jsonImportFormSchema)
            (\<lambda>v. Inr ((only_source s)\<lparr> json := Some v \<rparr>))
      | MeasurementsJson \<Rightarrow>
          and_then (processSubmission formData jsonImportFormSchema)
            (\<lambda>v. Inr ((only_source s)\<lparr> json := Some v \<rparr>)))"

text \<open>
  The names of the objects of values that an input holds, and the name the action uses
  for each source.
\<close>

definition populated :: "deploy_import_job_input \<Rightarrow> string list" where
  "populated i =
     (if goodreads i \<noteq> None then [''goodreads''] else [])
     @ (if trakt i \<noteq> None then [''trakt''] else [])
     @ (if audiobookshelf i \<noteq> None then [''audiobookshelf''] else [])
     @ (if mediaTracker i \<noteq> None then [''mediaTracker''] else [])
     @ (if movary i \<noteq> None then [''movary''] else [])
     @ (if storyGraph i \<noteq> None then [''storyGraph''] else [])
     @ (if mal i \<noteq> None then [''mal''] else [])
     @ (if strongApp i \<noteq> None then [''strongApp''] else [])
     @ (if json i \<noteq> None then [''json''] else [])"

definition values_key :: "ImportSource \<Rightarrow> string" where
  "values_key s =
     (case s of
        Goodreads \<Rightarrow> ''goodreads'' | Trakt \<Rightarrow> ''trakt''
      | Audiobookshelf \<Rightarrow> ''audiobookshelf'' | MediaTracker \<Rightarrow> ''mediaTracker''
      | Movary \<Rightarrow> ''movary'' | StoryGraph \<Rightarrow> ''storyGraph'' | Mal \<Rightarrow> ''mal''
      | StrongApp \<Rightarrow> ''strongApp''
      | MediaJson \<Rightarrow> ''json'' | PeopleJson \<Rightarrow> ''json''
      | WorkoutsJson \<Rightarrow> ''json'' | MeasurementsJson \<Rightarrow> ''json'')"

text \<open>The fields the schema of a source requires, in the order the schema lists them.\<close>

definition required_fields :: "ImportSource \<Rightarrow> string list" where
  "required_fields s =
     (case s of
        Goodreads \<Rightarrow> [''csvPath''] | Trakt \<Rightarrow> [''username'']
      | Audiobookshelf \<Rightarrow> [''apiUrl'', ''apiKey''] | MediaTracker \<Rightarrow> [''apiUrl'', ''apiKey'']
      | Movary \<Rightarrow> [''ratings'', ''history'', ''watchlist'']
      | StoryGraph \<Rightarrow> [''export''] | Mal \<Rightarrow> [''animePath'', ''mangaPath'']
      | StrongApp \<Rightarrow> [''exportPath'', ''mapping'']
      | MediaJson \<Rightarrow> [''export''] | PeopleJson \<Rightarrow> [''export'']
      | WorkoutsJson \<Rightarrow> [''export''] | MeasurementsJson \<Rightarrow> [''export''])"

section \<open>Properties of the loops\<close>

lemma for_episodes_map: "for_episodes mk es us = us @ map mk es"
  by (induction es arbitrary: us) simp_all

lemma for_seasons_concat:
  "for_seasons vars ss us =
     us @ concat (map (\<lambda>s. map (show_record vars (seasonNumber s)) (episodes s)) ss)"
  by (induction ss arbitrary: us) (simp_all add: for_episodes_map)

lemma for_seasons_before_takeWhile:
  "for_seasons_before vars t ss us =
     us @ concat (map (\<lambda>s. map (show_record vars (seasonNumber s)) (episodes s))
                    (takeWhile (\<lambda>s. seasonNumber s \<le> t) ss))"
  by (induction ss arbitrary: us) (simp_all add: for_episodes_map not_less)

lemma for_upto_map: "for_upto i n mk us = us @ map mk [i..n]"
proof (induction i n mk us rule: for_upto.induct)
  case (1 i n mk us)
  show ?case
  proof (cases "i \<le> n")
    case True
    with "1" show ?thesis
      by (subst for_upto.simps) (simp add: upto_rec1 [of i n])
  next
    case False
    then show ?thesis
      by (subst for_upto.simps) simp
  qed
qed

lemma length_season_records:
  "length (season_records vars ss) = sum_list (map (\<lambda>s. length (episodes s)) ss)"
  by (induction ss) (simp_all add: season_records_def)

lemma season_records_common:
  "u \<in> set (season_records (variables sub) ss) \<Longrightarrow>
     metadataId_u u = metadataId sub \<and> date_u u = date sub \<and> progress_u u = 100"
  by (auto simp: season_records_def show_record_def variables_def)

lemma season_records_empty:
  "(\<forall>s \<in> set ss. episodes s = []) \<Longrightarrow> season_records vars ss = []"
  by (simp add: season_records_def)

section \<open>The decoder consumes its input and has fuel enough\<close>

lemma map_result_Inr: "map_result g x = Inr (y, r) \<longleftrightarrow> (\<exists>a. x = Inr (a, r) \<and> y = g a)"
  by (cases x) (auto simp: map_result_def)

lemma map_result_Inl: "map_result g x = Inl e \<longleftrightarrow> x = Inl e"
  by (cases x) (auto simp: map_result_def)

lemma length_skip_ws: "length (skip_ws cs) \<le> length cs"
  by (simp add: skip_ws_def length_dropWhile_le)

lemma skip_ws_Cons: "skip_ws cs = c # r \<Longrightarrow> length r < length cs"
  using length_skip_ws [of cs] by simp

lemma parse_chars_shorter: "parse_chars cs = Inr (s, r) \<Longrightarrow> length r < length cs"
proof (induction "length cs" arbitrary: cs s rule: less_induct)
  case less
  show ?case
  proof (cases cs)
    case Nil
    with less.prems show ?thesis by simp
  next
    case (Cons c cs')
    have IH: "parse_chars t = Inr (a, r) \<Longrightarrow> length t \<le> length cs' \<Longrightarrow> length r < length t"
      for t a
      using less.hyps [of t a] by (simp add: Cons)
    from less.prems show ?thesis
      unfolding Cons
      by (auto simp: map_result_Inr split: if_splits list.splits option.splits
          dest!: IH)
  qed
qed

lemma parse_chars_error: "parse_chars cs = Inl e \<Longrightarrow> e = SyntaxError"
proof (induction "length cs" arbitrary: cs rule: less_induct)
  case less
  show ?case
  proof (cases cs)
    case Nil
    with less.prems show ?thesis by simp
  next
    case (Cons c cs')
    have IH: "parse_chars t = Inl e \<Longrightarrow> length t \<le> length cs' \<Longrightarrow> e = SyntaxError"
      for t
      using less.hyps [of t] by (simp add: Cons)
    from less.prems show ?thesis
      unfolding Cons
      by (auto simp: map_result_Inl split: if_splits list.splits option.splits
          dest!: IH)
  qed
qed

lemma parse_chars_fuel: "parse_chars cs \<noteq> Inl OutOfFuel"
  using parse_chars_error [of cs OutOfFuel] by auto

lemma parse_fraction_shorter: "parse_fraction cs = Some (fs, r) \<Longrightarrow> length r \<le> length cs"
  using length_dropWhile_le [of is_digit "tl cs"]
  by (auto simp: parse_fraction_def split: list.splits if_splits)

lemma parse_exponent_shorter:
  assumes "parse_exponent cs = Some (x, r)"
  shows "length r \<le> length cs"
proof (cases cs)
  case Nil
  with assms show ?thesis by (simp add: parse_exponent_def)
next
  case (Cons c t)
  define r1 where "r1 = (if take 1 t = ''-'' \<or> take 1 t = ''+'' then drop 1 t else t)"
  have "length (dropWhile is_digit r1) \<le> length r1"
    by (rule length_dropWhile_le)
  moreover have "length r1 \<le> length t"
    by (simp add: r1_def)
  moreover from assms have "r = dropWhile is_digit r1 \<or> r = cs"
    by (auto simp: parse_exponent_def Cons Let_def r1_def split: if_splits)
  ultimately show ?thesis
    using Cons by auto
qed

lemma parse_number_shorter:
  assumes "parse_number cs = Inr (v, r)"
  shows "length r < length cs"
proof -
  define cs1 where "cs1 = (if take 1 cs = ''-'' then drop 1 cs else cs)"
  define ds where "ds = (if take 1 cs1 = ''0'' then ''0'' else takeWhile is_digit cs1)"
  from assms have ds: "ds \<noteq> []"
    by (auto simp: parse_number_def Let_def cs1_def ds_def split: if_splits)
  from assms obtain fs cs2 x where f: "parse_fraction (drop (length ds) cs1) = Some (fs, cs2)"
    and e: "parse_exponent cs2 = Some (x, r)"
    by (auto simp: parse_number_def Let_def cs1_def ds_def
        split: if_splits option.splits prod.splits)
  have "length ds \<le> length cs1"
    by (cases cs1) (auto simp: ds_def length_takeWhile_le)
  with ds have "length (drop (length ds) cs1) < length cs1"
    by (cases ds) auto
  moreover have "length cs1 \<le> length cs"
    by (simp add: cs1_def)
  ultimately show ?thesis
    using parse_fraction_shorter [OF f] parse_exponent_shorter [OF e] by linarith
qed

lemma parse_number_error:
  "parse_number cs = Inl e \<Longrightarrow> e = SyntaxError"
  by (auto simp: parse_number_def Let_def split: option.splits prod.splits if_splits)

lemma parse_number_fuel: "parse_number cs \<noteq> Inl OutOfFuel"
  using parse_number_error [of cs OutOfFuel] by auto

lemma skip_ws_drop1: "length (drop 1 (skip_ws r)) \<le> length r"
  using length_skip_ws [of r] by simp

lemma parse_shorter:
  "(parse_value f cs = Inr (v, r) \<longrightarrow> length r < length cs)
   \<and> (parse_elements f cs = Inr (vs, r) \<longrightarrow> length r < length cs)
   \<and> (parse_members f cs = Inr (ms, r) \<longrightarrow> length r < length cs)"
proof (induction f arbitrary: cs v vs ms r)
  case 0
  show ?case by simp
next
  case (Suc f)
  have val_IH: "parse_value f t = Inr (a, r) \<Longrightarrow> length r < length t" for t a r
    using Suc by blast
  have elems_IH: "parse_elements f t = Inr (b, r) \<Longrightarrow> length r < length t" for t b r
    using Suc by blast
  have membs_IH: "parse_members f t = Inr (d, r) \<Longrightarrow> length r < length t" for t d r
    using Suc by blast
  have "length r < length cs" if "parse_value (Suc f) cs = Inr (v, r)"
  proof (cases "skip_ws cs")
    case Nil
    with that show ?thesis by simp
  next
    case (Cons c r0)
    then have r0: "length r0 < length cs"
      by (rule skip_ws_Cons)
    from that Cons show ?thesis
      using r0 skip_ws_drop1 [of r0]
      by (auto simp: map_result_Inr split: if_splits
          dest!: elems_IH membs_IH parse_chars_shorter parse_number_shorter)
  qed
  moreover have "length r < length cs" if "parse_elements (Suc f) cs = Inr (vs, r)"
    using that
    by (auto simp: map_result_Inr split: sum.splits list.splits if_splits
        dest!: val_IH elems_IH skip_ws_Cons)
  moreover have "length r < length cs" if "parse_members (Suc f) cs = Inr (ms, r)"
    using that
    by (auto simp: map_result_Inr split: sum.splits list.splits if_splits
        dest!: val_IH membs_IH skip_ws_Cons parse_chars_shorter)
  ultimately show ?case
    by blast
qed

lemma parse_value_shorter: "parse_value f cs = Inr (v, r) \<Longrightarrow> length r < length cs"
  using parse_shorter [of f cs v r] by blast

lemma parse_fuel:
  "(parse_value f cs = Inl OutOfFuel \<longrightarrow> f \<le> 2 * length cs)
   \<and> (parse_elements f cs = Inl OutOfFuel \<longrightarrow> f \<le> 2 * length cs + 1)
   \<and> (parse_members f cs = Inl OutOfFuel \<longrightarrow> f \<le> 2 * length cs + 1)"
proof (induction f arbitrary: cs)
  case 0
  show ?case by simp
next
  case (Suc f)
  have val_IH: "parse_value f t = Inl OutOfFuel \<Longrightarrow> f \<le> 2 * length t" for t
    using Suc by blast
  have elems_IH: "parse_elements f t = Inl OutOfFuel \<Longrightarrow> f \<le> 2 * length t + 1" for t
    using Suc by blast
  have membs_IH: "parse_members f t = Inl OutOfFuel \<Longrightarrow> f \<le> 2 * length t + 1" for t
    using Suc by blast
  have "Suc f \<le> 2 * length cs" if "parse_value (Suc f) cs = Inl OutOfFuel"
  proof (cases "skip_ws cs")
    case Nil
    with that show ?thesis by simp
  next
    case (Cons c r0)
    then have r0: "length r0 < length cs"
      by (rule skip_ws_Cons)
    from that Cons show ?thesis
      using r0
      by (auto simp: map_result_Inl parse_chars_fuel parse_number_fuel split: if_splits
          dest!: elems_IH membs_IH)
  qed
  moreover have "Suc f \<le> 2 * length cs + 1" if "parse_elements (Suc f) cs = Inl OutOfFuel"
    using that
    by (auto simp: map_result_Inl split: sum.splits list.splits if_splits
        dest!: val_IH elems_IH skip_ws_Cons parse_value_shorter)
  moreover have "Suc f \<le> 2 * length cs + 1" if "parse_members (Suc f) cs = Inl OutOfFuel"
    using that
    by (auto simp: map_result_Inl parse_chars_fuel split: sum.splits list.splits if_splits
        dest!: val_IH membs_IH skip_ws_Cons parse_value_shorter parse_chars_shorter)
  ultimately show ?case
    by blast
qed

lemma JSON_parse_fuel: "JSON_parse t \<noteq> Inl OutOfFuel"
proof
  assume "JSON_parse t = Inl OutOfFuel"
  then have "parse_value (2 * length t + 1) t = Inl OutOfFuel"
    by (auto simp: JSON_parse_def split: sum.splits if_splits)
  with parse_fuel [of "2 * length t + 1" t] show False
    by simp
qed

lemma parse_error:
  "(parse_value f cs = Inl e \<longrightarrow> e = SyntaxError \<or> e = OutOfFuel)
   \<and> (parse_elements f cs = Inl e \<longrightarrow> e = SyntaxError \<or> e = OutOfFuel)
   \<and> (parse_members f cs = Inl e \<longrightarrow> e = SyntaxError \<or> e = OutOfFuel)"
proof (induction f arbitrary: cs)
  case 0
  show ?case by simp
next
  case (Suc f)
  have val_IH: "parse_value f t = Inl e \<Longrightarrow> e = SyntaxError \<or> e = OutOfFuel" for t
    using Suc by blast
  have elems_IH: "parse_elements f t = Inl e \<Longrightarrow> e = SyntaxError \<or> e = OutOfFuel" for t
    using Suc by blast
  have membs_IH: "parse_members f t = Inl e \<Longrightarrow> e = SyntaxError \<or> e = OutOfFuel" for t
    using Suc by blast
  have "e = SyntaxError \<or> e = OutOfFuel" if "parse_value (Suc f) cs = Inl e"
    using that
    by (auto simp: map_result_Inl split: list.splits if_splits
        dest!: elems_IH membs_IH parse_chars_error parse_number_error)
  moreover have "e = SyntaxError \<or> e = OutOfFuel" if "parse_elements (Suc f) cs = Inl e"
    using that
    by (auto simp: map_result_Inl split: sum.splits list.splits if_splits
        dest!: val_IH elems_IH)
  moreover have "e = SyntaxError \<or> e = OutOfFuel" if "parse_members (Suc f) cs = Inl e"
    using that
    by (auto simp: map_result_Inl split: sum.splits list.splits if_splits
        dest!: val_IH membs_IH parse_chars_error)
  ultimately show ?case
    by blast
qed

lemma JSON_parse_error:
  assumes "JSON_parse t = Inl e"
  shows "e = SyntaxError"
proof -
  from assms have "e = SyntaxError \<or> parse_value (2 * length t + 1) t = Inl e"
    by (auto simp: JSON_parse_def split: sum.splits if_splits)
  with parse_error [of "2 * length t + 1" t e] JSON_parse_fuel [of t] assms
  show ?thesis
    by auto
qed

section \<open>Decoding some texts\<close>

lemma JSON_parse_empty_array: "JSON_parse ''[]'' = Inr (JArray [])"
  by code_simp

lemma JSON_parse_not_json: "JSON_parse ''not json'' = Inl SyntaxError"
  by code_simp

lemma JSON_parse_samples:
  \<open>JSON_parse ''null'' = Inr JNull\<close>
  \<open>JSON_parse ''[] []'' = Inl SyntaxError\<close>
  \<open>JSON_parse ''[{"sourceName":"a",}]'' = Inl SyntaxError\<close>
  \<open>JSON_parse ''{"targetName":"a","targetName":"b"}''
     = Inr (JObject [(units ''targetName'', JString (units ''b''))])\<close>
  \<open>JSON_parse ''[{"sourceName":"Bench Press","targetName":"bench"},[1.5,true,null]]''
     = Inr (JArray
         [JObject [(units ''sourceName'', JString (units ''Bench Press'')),
                   (units ''targetName'', JString (units ''bench''))],
          JArray [JNumber (Dyadic 3 1), JBool True, JNull]])\<close>
  by code_simp+

lemma decode_absent:
  "field = None \<or> field = Some [] \<Longrightarrow> decode showSpecificsSchema field = Inr []"
  "field = None \<or> field = Some [] \<Longrightarrow> decode podcastSpecificsSchema field = Inr []"
  by (auto simp: decode_def or_empty_array_def JSON_parse_empty_array
      showSpecificsSchema_def podcastSpecificsSchema_def z_array_def)

lemma decode_three_seasons:
  \<open>decode showSpecificsSchema
     (Some ''[{"seasonNumber":1,"episodes":[1,2]},{"seasonNumber":2,"episodes":[1]},{"seasonNumber":3,"episodes":[1,2,3]}]'')
   = Inr [\<lparr> seasonNumber = 1, episodes = [1, 2] \<rparr>, \<lparr> seasonNumber = 2, episodes = [1] \<rparr>,
          \<lparr> seasonNumber = 3, episodes = [1, 2, 3] \<rparr>]\<close>
  by code_simp

lemma decode_two_episodes:
  \<open>decode podcastSpecificsSchema (Some ''[{"episodeNumber":1},{"episodeNumber":2}]'')
   = Inr [\<lparr> episodeNumber = 1 \<rparr>, \<lparr> episodeNumber = 2 \<rparr>]\<close>
  by code_simp

section \<open>The list by kind of media\<close>

lemma anime_branch_other: "metadataLot sub \<noteq> Anime \<Longrightarrow> anime_branch sub a = a"
  by (simp add: anime_branch_def)

lemma manga_branch_other: "metadataLot sub \<noteq> Manga \<Longrightarrow> manga_branch sub a = a"
  by (simp add: manga_branch_def)

lemma show_branch_other: "metadataLot sub \<noteq> Show \<Longrightarrow> show_branch sub S a = Inr a"
  by (simp add: show_branch_def)

lemma podcast_branch_other: "metadataLot sub \<noteq> Podcast \<Longrightarrow> podcast_branch sub P a = a"
  by (simp add: podcast_branch_def)

lemma expand_Anime:
  assumes "metadataLot sub = Anime"
  shows "expand sub S P =
     Inr (case animeEpisodeNumber sub of
            None \<Rightarrow> [variables sub]
          | Some n \<Rightarrow>
              if n \<noteq> 0 \<and> truthy (animeAllEpisodesBefore sub)
              then map (\<lambda>i. (variables sub)\<lparr> animeEpisodeNumber_u := Some i \<rparr>) [1..n]
              else [variables sub])"
  using assms
  by (simp add: expand_def manga_branch_other show_branch_other podcast_branch_other
      anime_branch_def final_update_def for_upto_map Let_def split: option.splits)

lemma expand_Manga:
  assumes "metadataLot sub = Manga"
  shows "expand sub S P =
     Inr (case mangaChapterNumber sub of
            None \<Rightarrow> [variables sub]
          | Some n \<Rightarrow>
              if n \<noteq> 0 \<and> truthy (mangaAllChaptersBefore sub)
              then map (\<lambda>i. (variables sub)\<lparr> mangaChapterNumber_u := Some i \<rparr>) [1..n]
              else [variables sub])"
  using assms
  by (simp add: expand_def anime_branch_other show_branch_other podcast_branch_other
      manga_branch_def final_update_def for_upto_map Let_def split: option.splits)

lemma expand_Podcast:
  assumes "metadataLot sub = Podcast"
  shows "expand sub S P =
     Inr (if truthy (completePodcast sub)
          then map (\<lambda>e. (variables sub)\<lparr> podcastEpisodeNumber_u := Some (episodeNumber e) \<rparr>) P
          else [variables sub])"
  using assms
  by (simp add: expand_def anime_branch_other manga_branch_other show_branch_other
      podcast_branch_def final_update_def for_episodes_map comp_def)

lemma expand_other:
  assumes "metadataLot sub \<notin> {Anime, Manga, Show, Podcast}"
  shows "expand sub S P = Inr [variables sub]"
  using assms
  by (simp add: expand_def anime_branch_other manga_branch_other show_branch_other
      podcast_branch_other final_update_def)

lemma expand_Show:
  assumes "metadataLot sub = Show"
  shows "expand sub S P =
     (let complete = (if truthy (completeShow sub) then season_records (variables sub) S else [])
      in if truthy (onlySeason sub)
         then (case selectedSeason sub S of
                 None \<Rightarrow> Inl (InvariantError ''No season selected'')
               | Some sel \<Rightarrow>
                   Inr (complete @
                     (if truthy (showAllSeasonsBefore sub)
                      then season_records (variables sub)
                             (takeWhile (\<lambda>s. seasonNumber s \<le> seasonNumber sel) S)
                      else map (\<lambda>e. (variables sub)\<lparr> showEpisodeNumber_u := Some e \<rparr>)
                             (episodes sel))))
         else Inr (if truthy (completeShow sub) then complete else [variables sub]))"
  using assms
  by (simp add: expand_def anime_branch_other manga_branch_other podcast_branch_other
      show_branch_def only_season_branch_def complete_show_branch_def final_update_def
      for_episodes_map for_seasons_concat for_seasons_before_takeWhile season_records_def
      split: option.splits)

lemma selectedSeason_None_iff:
  "selectedSeason sub S = None \<longleftrightarrow> (\<forall>s \<in> set S. Some (seasonNumber s) \<noteq> showSeasonNumber sub)"
  by (auto simp: selectedSeason_def find_None_iff)

text \<open>
  The whole action on a form as the page sends it: three seasons as JSON text, the
  second season asked for with all seasons before.
\<close>

lemma progressUpdate_three_seasons:
  \<open>progressUpdate
     \<lparr> metadataLot = Show, metadataId = 7, date = None, redirectTo = None,
       showSpecifics = Some ''[{"seasonNumber":1,"episodes":[1,2]},{"seasonNumber":2,"episodes":[1]},{"seasonNumber":3,"episodes":[1,2,3]}]'',
       showAllSeasonsBefore = Some True, podcastSpecifics = None,
       onlySeason = Some True, completeShow = None, completePodcast = None,
       animeAllEpisodesBefore = None, mangaAllChaptersBefore = None,
       showSeasonNumber = Some 2, showEpisodeNumber = None, podcastEpisodeNumber = None,
       animeEpisodeNumber = None, mangaChapterNumber = None \<rparr>
     = Inr [\<lparr> metadataId_u = 7, progress_u = 100, date_u = None,
              showSeasonNumber_u = Some 1, showEpisodeNumber_u = Some 1,
              podcastEpisodeNumber_u = None, animeEpisodeNumber_u = None,
              mangaChapterNumber_u = None \<rparr>,
            \<lparr> metadataId_u = 7, progress_u = 100, date_u = None,
              showSeasonNumber_u = Some 1, showEpisodeNumber_u = Some 2,
              podcastEpisodeNumber_u = None, animeEpisodeNumber_u = None,
              mangaChapterNumber_u = None \<rparr>,
            \<lparr> metadataId_u = 7, progress_u = 100, date_u = None,
              showSeasonNumber_u = Some 2, showEpisodeNumber_u = Some 1,
              podcastEpisodeNumber_u = None, animeEpisodeNumber_u = None,
              mangaChapterNumber_u = None \<rparr>]\<close>
  by (simp add: progressUpdate_def decode_three_seasons decode_absent expand_Show truthy_def
      selectedSeason_def season_records_def show_record_def variables_def)

section \<open>The input of an import by source\<close>

lemmas schema_defs =
  processSubmission_def and_then_def z_string_def z_string_url_def
  goodreadsImportFormSchema_def traktImportFormSchema_def
  audiobookshelfImportFormSchema_def mediaTrackerImportFormSchema_def
  movaryImportFormSchema_def storyGraphImportFormSchema_def malImportFormSchema_def
  strongAppImportFormSchema_def jsonImportFormSchema_def

lemma strongApp_schema:
  "formData ''exportPath'' = Some p \<Longrightarrow> formData ''mapping'' = Some m \<Longrightarrow>
     processSubmission formData strongAppImportFormSchema = Inr \<lparr> exportPath = p, mapping = m \<rparr>"
  by (simp add: processSubmission_def strongAppImportFormSchema_def and_then_def z_string_def)

lemma deployImport_StrongApp:
  "formData ''exportPath'' = Some p \<Longrightarrow> formData ''mapping'' = Some m \<Longrightarrow>
     deployImport is_url formData StrongApp =
       (case JSON_parse m of
          Inl e \<Rightarrow> Inl e
        | Inr j \<Rightarrow> Inr ((only_source StrongApp)
                   \<lparr> strongApp := Some \<lparr> exportPath = p, mapping = j \<rparr> \<rparr>))"
  by (simp add: deployImport_def strongApp_schema and_then_def split: sum.splits)

lemma deployImport_success:
  "formData ''csvPath'' = Some a \<Longrightarrow>
     deployImport is_url formData Goodreads =
       Inr ((only_source Goodreads)\<lparr> goodreads := Some \<lparr> csvPath = a \<rparr> \<rparr>)"
  "formData ''username'' = Some a \<Longrightarrow>
     deployImport is_url formData Trakt =
       Inr ((only_source Trakt)\<lparr> trakt := Some \<lparr> username = a \<rparr> \<rparr>)"
  "formData ''apiUrl'' = Some a \<Longrightarrow> is_url a \<Longrightarrow> formData ''apiKey'' = Some b \<Longrightarrow>
     deployImport is_url formData Audiobookshelf =
       Inr ((only_source Audiobookshelf)
              \<lparr> audiobookshelf := Some \<lparr> apiUrl = a, apiKey = b \<rparr> \<rparr>)"
  "formData ''apiUrl'' = Some a \<Longrightarrow> is_url a \<Longrightarrow> formData ''apiKey'' = Some b \<Longrightarrow>
     deployImport is_url formData MediaTracker =
       Inr ((only_source MediaTracker)
              \<lparr> mediaTracker := Some \<lparr> apiUrl = a, apiKey = b \<rparr> \<rparr>)"
  "formData ''ratings'' = Some a \<Longrightarrow> formData ''history'' = Some b \<Longrightarrow>
     formData ''watchlist'' = Some c \<Longrightarrow>
     deployImport is_url formData Movary =
       Inr ((only_source Movary)
              \<lparr> movary := Some \<lparr> ratings = a, history = b, watchlist = c \<rparr> \<rparr>)"
  "formData ''export'' = Some a \<Longrightarrow>
     deployImport is_url formData StoryGraph =
       Inr ((only_source StoryGraph)\<lparr> storyGraph := Some \<lparr> export = a \<rparr> \<rparr>)"
  "formData ''animePath'' = Some a \<Longrightarrow> formData ''mangaPath'' = Some b \<Longrightarrow>
     deployImport is_url formData Mal =
       Inr ((only_source Mal)\<lparr> mal := Some \<lparr> animePath = a, mangaPath = b \<rparr> \<rparr>)"
  "formData ''export'' = Some a \<Longrightarrow>
     deployImport is_url formData MediaJson =
       Inr ((only_source MediaJson)\<lparr> json := Some \<lparr> export = a \<rparr> \<rparr>)"
  "formData ''export'' = Some a \<Longrightarrow>
     deployImport is_url formData PeopleJson =
       Inr ((only_source PeopleJson)\<lparr> json := Some \<lparr> export = a \<rparr> \<rparr>)"
  "formData ''export'' = Some a \<Longrightarrow>
     deployImport is_url formData WorkoutsJson =
       Inr ((only_source WorkoutsJson)\<lparr> json := Some \<lparr> export = a \<rparr> \<rparr>)"
  "formData ''export'' = Some a \<Longrightarrow>
     deployImport is_url formData MeasurementsJson =
       Inr ((only_source MeasurementsJson)\<lparr> json := Some \<lparr> export = a \<rparr> \<rparr>)"
  by (simp_all add: deployImport_def schema_defs)

lemma deployImport_empty:
  "deployImport is_url Map.empty s = Inl (ValidationError (hd (required_fields s)))"
  by (cases s) (simp_all add: deployImport_def schema_defs required_fields_def)

lemma deployImport_needs_fields:
  assumes "deployImport is_url formData s = Inr i"
  shows "\<forall>f \<in> set (required_fields s). formData f \<noteq> None"
proof (cases s)
  case Goodreads
  with assms show ?thesis
    by (auto simp: deployImport_def schema_defs required_fields_def split: option.splits if_splits)
next
  case Trakt
  with assms show ?thesis
    by (auto simp: deployImport_def schema_defs required_fields_def split: option.splits if_splits)
next
  case Audiobookshelf
  with assms show ?thesis
    by (auto simp: deployImport_def schema_defs required_fields_def split: option.splits if_splits)
next
  case MediaTracker
  with assms show ?thesis
    by (auto simp: deployImport_def schema_defs required_fields_def split: option.splits if_splits)
next
  case Movary
  with assms show ?thesis
    by (auto simp: deployImport_def schema_defs required_fields_def split: option.splits if_splits)
next
  case StoryGraph
  with assms show ?thesis
    by (auto simp: deployImport_def schema_defs required_fields_def split: option.splits if_splits)
next
  case Mal
  with assms show ?thesis
    by (auto simp: deployImport_def schema_defs required_fields_def split: option.splits if_splits)
next
  case StrongApp
  with assms show ?thesis
    by (auto simp: deployImport_def schema_defs required_fields_def split: option.splits if_splits)
next
  case MediaJson
  with assms show ?thesis
    by (auto simp: deployImport_def schema_defs required_fields_def split: option.splits if_splits)
next
  case PeopleJson
  with assms show ?thesis
    by (auto simp: deployImport_def schema_defs required_fields_def split: option.splits if_splits)
next
  case WorkoutsJson
  with assms show ?thesis
    by (auto simp: deployImport_def schema_defs required_fields_def split: option.splits if_splits)
next
  case MeasurementsJson
  with assms show ?thesis
    by (auto simp: deployImport_def schema_defs required_fields_def split: option.splits if_splits)
qed

lemma and_then_Inr: "and_then r f = Inr y \<longleftrightarrow> (\<exists>x. r = Inr x \<and> f x = Inr y)"
  by (cases r) (simp_all add: and_then_def)

lemma populated_one:
  "populated ((only_source s)\<lparr> goodreads := Some a \<rparr>) = [''goodreads'']"
  "populated ((only_source s)\<lparr> trakt := Some b \<rparr>) = [''trakt'']"
  "populated ((only_source s)\<lparr> audiobookshelf := Some c \<rparr>) = [''audiobookshelf'']"
  "populated ((only_source s)\<lparr> mediaTracker := Some c \<rparr>) = [''mediaTracker'']"
  "populated ((only_source s)\<lparr> movary := Some d \<rparr>) = [''movary'']"
  "populated ((only_source s)\<lparr> storyGraph := Some e \<rparr>) = [''storyGraph'']"
  "populated ((only_source s)\<lparr> mal := Some f \<rparr>) = [''mal'']"
  "populated ((only_source s)\<lparr> strongApp := Some g \<rparr>) = [''strongApp'']"
  "populated ((only_source s)\<lparr> json := Some e \<rparr>) = [''json'']"
  by (simp_all add: populated_def only_source_def)

lemma source_only_source:
  "source ((only_source s)\<lparr> goodreads := x1 \<rparr>) = s"
  "source ((only_source s)\<lparr> trakt := x2 \<rparr>) = s"
  "source ((only_source s)\<lparr> audiobookshelf := x3 \<rparr>) = s"
  "source ((only_source s)\<lparr> mediaTracker := x4 \<rparr>) = s"
  "source ((only_source s)\<lparr> movary := x5 \<rparr>) = s"
  "source ((only_source s)\<lparr> storyGraph := x6 \<rparr>) = s"
  "source ((only_source s)\<lparr> mal := x7 \<rparr>) = s"
  "source ((only_source s)\<lparr> strongApp := x8 \<rparr>) = s"
  "source ((only_source s)\<lparr> json := x9 \<rparr>) = s"
  by (simp_all add: only_source_def)

lemma deployImport_populated:
  assumes "deployImport is_url formData s = Inr i"
  shows "source i = s \<and> populated i = [values_key s]"
  using assms
  by (cases s)
    (auto simp: deployImport_def and_then_Inr values_key_def populated_one source_only_source)

lemma deployImport_total:
  assumes fields: "\<forall>f \<in> set (required_fields s). formData f \<noteq> None"
    and urls: "\<forall>u. formData ''apiUrl'' = Some u \<longrightarrow> is_url u"
    and jsons: "\<forall>m. formData ''mapping'' = Some m \<longrightarrow> (\<exists>j. JSON_parse m = Inr j)"
  shows "\<exists>i. deployImport is_url formData s = Inr i"
proof (cases s)
  case Goodreads
  with fields obtain a where got: "formData ''csvPath'' = Some a"
    by (auto simp: required_fields_def)
  from got show ?thesis
    unfolding Goodreads by (simp add: deployImport_success)
next
  case Trakt
  with fields obtain a where got: "formData ''username'' = Some a"
    by (auto simp: required_fields_def)
  from got show ?thesis
    unfolding Trakt by (simp add: deployImport_success)
next
  case Audiobookshelf
  with fields obtain a b where got: "formData ''apiUrl'' = Some a" "formData ''apiKey'' = Some b"
    by (auto simp: required_fields_def)
  from got urls have "is_url a"
    by simp
  with got show ?thesis
    unfolding Audiobookshelf by (simp add: deployImport_success)
next
  case MediaTracker
  with fields obtain a b where got: "formData ''apiUrl'' = Some a" "formData ''apiKey'' = Some b"
    by (auto simp: required_fields_def)
  from got urls have "is_url a"
    by simp
  with got show ?thesis
    unfolding MediaTracker by (simp add: deployImport_success)
next
  case Movary
  with fields obtain a b c where got: "formData ''ratings'' = Some a" "formData ''history'' = Some b" "formData ''watchlist'' = Some c"
    by (auto simp: required_fields_def)
  from got show ?thesis
    unfolding Movary by (simp add: deployImport_success)
next
  case StoryGraph
  with fields obtain a where got: "formData ''export'' = Some a"
    by (auto simp: required_fields_def)
  from got show ?thesis
    unfolding StoryGraph by (simp add: deployImport_success)
next
  case Mal
  with fields obtain a b where got: "formData ''animePath'' = Some a" "formData ''mangaPath'' = Some b"
    by (auto simp: required_fields_def)
  from got show ?thesis
    unfolding Mal by (simp add: deployImport_success)
next
  case StrongApp
  with fields obtain a b where got: "formData ''exportPath'' = Some a" "formData ''mapping'' = Some b"
    by (auto simp: required_fields_def)
  from got jsons obtain j where "JSON_parse b = Inr j"
    by blast
  with got show ?thesis
    unfolding StrongApp by (simp add: deployImport_StrongApp)
next
  case MediaJson
  with fields obtain a where got: "formData ''export'' = Some a"
    by (auto simp: required_fields_def)
  from got show ?thesis
    unfolding MediaJson by (simp add: deployImport_success)
next
  case PeopleJson
  with fields obtain a where got: "formData ''export'' = Some a"
    by (auto simp: required_fields_def)
  from got show ?thesis
    unfolding PeopleJson by (simp add: deployImport_success)
next
  case WorkoutsJson
  with fields obtain a where got: "formData ''export'' = Some a"
    by (auto simp: required_fields_def)
  from got show ?thesis
    unfolding WorkoutsJson by (simp add: deployImport_success)
next
  case MeasurementsJson
  with fields obtain a where got: "formData ''export'' = Some a"
    by (auto simp: required_fields_def)
  from got show ?thesis
    unfolding MeasurementsJson by (simp add: deployImport_success)
qed

section \<open>Seasons of a show\<close>

text \<open>
  C1. For a season of a show with all seasons before asked for, where the season number
  occurs in the structure: the action goes through the seasons in the order of the
  structure, stops at the first season whose number exceeds the one asked for, and
  builds one record per episode of every season before that point. A later season is
  not visited, whatever its number. The witness is the case of the seasons 1, 2, 3 with
  episodes [1, 2], [1], [1, 2, 3] and season 2 asked for: three records.
\<close>

theorem all_seasons_before_records:
  assumes "metadataLot sub = Show" and "completeShow sub \<noteq> Some True"
    and "onlySeason sub = Some True" and "showAllSeasonsBefore sub = Some True"
    and "showSeasonNumber sub = Some t" and "t \<in> seasonNumber ` set S"
  shows "expand sub S P =
     Inr (concat (map (\<lambda>s. map (\<lambda>episode. (variables sub)
                \<lparr> showSeasonNumber_u := Some (seasonNumber s),
                  showEpisodeNumber_u := Some episode \<rparr>) (episodes s))
            (takeWhile (\<lambda>s. seasonNumber s \<le> t) S)))"
proof -
  from assms(6) obtain sel where sel: "selectedSeason sub S = Some sel"
    by (cases "selectedSeason sub S") (auto simp: selectedSeason_def assms(5) find_None_iff)
  then have "seasonNumber sel = t"
    by (auto simp: selectedSeason_def assms(5) find_Some_iff)
  with sel assms show ?thesis
    by (simp add: expand_Show truthy_def season_records_def show_record_def [abs_def])
qed

theorem all_seasons_before_records_witness:
  "expand
     \<lparr> metadataLot = Show, metadataId = 7, date = None, redirectTo = None,
       showSpecifics = None, showAllSeasonsBefore = Some True, podcastSpecifics = None,
       onlySeason = Some True, completeShow = None, completePodcast = None,
       animeAllEpisodesBefore = None, mangaAllChaptersBefore = None,
       showSeasonNumber = Some 2, showEpisodeNumber = None, podcastEpisodeNumber = None,
       animeEpisodeNumber = None, mangaChapterNumber = None \<rparr>
     [\<lparr> seasonNumber = 1, episodes = [1, 2] \<rparr>, \<lparr> seasonNumber = 2, episodes = [1] \<rparr>,
      \<lparr> seasonNumber = 3, episodes = [1, 2, 3] \<rparr>] []
     = Inr [\<lparr> metadataId_u = 7, progress_u = 100, date_u = None,
              showSeasonNumber_u = Some 1, showEpisodeNumber_u = Some 1,
              podcastEpisodeNumber_u = None, animeEpisodeNumber_u = None,
              mangaChapterNumber_u = None \<rparr>,
            \<lparr> metadataId_u = 7, progress_u = 100, date_u = None,
              showSeasonNumber_u = Some 1, showEpisodeNumber_u = Some 2,
              podcastEpisodeNumber_u = None, animeEpisodeNumber_u = None,
              mangaChapterNumber_u = None \<rparr>,
            \<lparr> metadataId_u = 7, progress_u = 100, date_u = None,
              showSeasonNumber_u = Some 2, showEpisodeNumber_u = Some 1,
              podcastEpisodeNumber_u = None, animeEpisodeNumber_u = None,
              mangaChapterNumber_u = None \<rparr>]"
proof -
  let ?s = "\<lparr> metadataLot = Show, metadataId = 7, date = None, redirectTo = None,
       showSpecifics = None, showAllSeasonsBefore = Some True, podcastSpecifics = None,
       onlySeason = Some True, completeShow = None, completePodcast = None,
       animeAllEpisodesBefore = None, mangaAllChaptersBefore = None,
       showSeasonNumber = Some 2, showEpisodeNumber = None, podcastEpisodeNumber = None,
       animeEpisodeNumber = None, mangaChapterNumber = None \<rparr>"
  show ?thesis
    using all_seasons_before_records [of ?s 2
        "[\<lparr> seasonNumber = 1, episodes = [1, 2] \<rparr>, \<lparr> seasonNumber = 2, episodes = [1] \<rparr>,
          \<lparr> seasonNumber = 3, episodes = [1, 2, 3] \<rparr>]" "[]"]
    by (simp add: variables_def)
qed

section \<open>Failure before anything is sent\<close>

text \<open>
  C2, as stated, fails: an episode of a show that is asked for by season and episode
  number is not looked up in the structure, and an absent structure is read as the empty
  one. Here the structure field is absent and season 9, episode 9 is asked for; the
  action builds the one record.
\<close>

theorem unchecked_episode_counterexample:
  "progressUpdate
     \<lparr> metadataLot = Show, metadataId = 7, date = None, redirectTo = None,
       showSpecifics = None, showAllSeasonsBefore = None, podcastSpecifics = None,
       onlySeason = None, completeShow = None, completePodcast = None,
       animeAllEpisodesBefore = None, mangaAllChaptersBefore = None,
       showSeasonNumber = Some 9, showEpisodeNumber = Some 9, podcastEpisodeNumber = None,
       animeEpisodeNumber = None, mangaChapterNumber = None \<rparr>
     = Inr [\<lparr> metadataId_u = 7, progress_u = 100, date_u = None,
              showSeasonNumber_u = Some 9, showEpisodeNumber_u = Some 9,
              podcastEpisodeNumber_u = None, animeEpisodeNumber_u = None,
              mangaChapterNumber_u = None \<rparr>]"
  by (simp add: progressUpdate_def decode_absent expand_Show truthy_def variables_def)

text \<open>
  C2, amended. Building the list fails, before anything is sent, exactly when the media
  is a show, a single season is asked for and no season of the structure has the
  submitted number; the error is the failed invariant \<^verbatim>\<open>No season selected\<close>. In every
  other case a list is built. In particular an episode of a show that is asked for by
  its numbers (neither a single season nor the complete show) is not looked up in the
  structure and gives exactly the one record \<open>variables\<close>, and a podcast gives one record
  per episode of the structure when it is marked complete and the one record
  \<open>variables\<close> otherwise. Absent or empty structure fields are read as empty structures.
\<close>

theorem expand_fails_iff:
  "(expand sub S P = Inl (InvariantError ''No season selected'') \<longleftrightarrow>
      metadataLot sub = Show \<and> onlySeason sub = Some True
      \<and> (\<forall>s \<in> set S. Some (seasonNumber s) \<noteq> showSeasonNumber sub))
   \<and> (expand sub S P \<noteq> Inl (InvariantError ''No season selected'') \<longrightarrow>
        (\<exists>us. expand sub S P = Inr us))
   \<and> (metadataLot sub = Show \<and> onlySeason sub \<noteq> Some True \<and> completeShow sub \<noteq> Some True
        \<longrightarrow> expand sub S P = Inr [variables sub])
   \<and> (metadataLot sub = Podcast \<longrightarrow>
        expand sub S P =
          Inr (if completePodcast sub = Some True
               then map (\<lambda>e. (variables sub)\<lparr> podcastEpisodeNumber_u := Some (episodeNumber e) \<rparr>) P
               else [variables sub]))
   \<and> ((showSpecifics sub = None \<or> showSpecifics sub = Some [])
        \<and> (podcastSpecifics sub = None \<or> podcastSpecifics sub = Some []) \<longrightarrow>
        progressUpdate sub = expand sub [] [])"
proof -
  consider "metadataLot sub = Anime" | "metadataLot sub = Manga" | "metadataLot sub = Podcast"
    | "metadataLot sub = Show" | "metadataLot sub \<notin> {Anime, Manga, Show, Podcast}"
    by auto
  then have fails: "(expand sub S P = Inl (InvariantError ''No season selected'') \<longleftrightarrow>
      metadataLot sub = Show \<and> onlySeason sub = Some True
      \<and> (\<forall>s \<in> set S. Some (seasonNumber s) \<noteq> showSeasonNumber sub))
   \<and> (expand sub S P \<noteq> Inl (InvariantError ''No season selected'') \<longrightarrow>
        (\<exists>us. expand sub S P = Inr us))"
  proof cases
    case 1
    then show ?thesis by (simp add: expand_Anime split: option.splits)
  next
    case 2
    then show ?thesis by (simp add: expand_Manga split: option.splits)
  next
    case 3
    then show ?thesis by (simp add: expand_Podcast)
  next
    case 4
    then show ?thesis
      by (cases "selectedSeason sub S")
        (simp_all add: expand_Show truthy_def Let_def selectedSeason_None_iff [symmetric])
  next
    case 5
    then show ?thesis by (auto simp: expand_other)
  qed
  have episode: "expand sub S P = Inr [variables sub]"
    if "metadataLot sub = Show \<and> onlySeason sub \<noteq> Some True \<and> completeShow sub \<noteq> Some True"
    using that by (simp add: expand_Show truthy_def)
  have podcast: "expand sub S P =
          Inr (if completePodcast sub = Some True
               then map (\<lambda>e. (variables sub)\<lparr> podcastEpisodeNumber_u := Some (episodeNumber e) \<rparr>) P
               else [variables sub])"
    if "metadataLot sub = Podcast"
    using that by (simp add: expand_Podcast truthy_def)
  have absent: "progressUpdate sub = expand sub [] []"
    if "(showSpecifics sub = None \<or> showSpecifics sub = Some [])
        \<and> (podcastSpecifics sub = None \<or> podcastSpecifics sub = Some [])"
    using that by (simp add: progressUpdate_def decode_absent)
  from fails episode podcast absent show ?thesis
    by blast
qed

theorem expand_fails_iff_witness:
  "expand
     \<lparr> metadataLot = Show, metadataId = 7, date = None, redirectTo = None,
       showSpecifics = None, showAllSeasonsBefore = None, podcastSpecifics = None,
       onlySeason = Some True, completeShow = None, completePodcast = None,
       animeAllEpisodesBefore = None, mangaAllChaptersBefore = None,
       showSeasonNumber = Some 2, showEpisodeNumber = None, podcastEpisodeNumber = None,
       animeEpisodeNumber = None, mangaChapterNumber = None \<rparr>
     [\<lparr> seasonNumber = 1, episodes = [1] \<rparr>] [] = Inl (InvariantError ''No season selected'')
   \<and> progressUpdate
     \<lparr> metadataLot = Show, metadataId = 7, date = None, redirectTo = None,
       showSpecifics = None, showAllSeasonsBefore = None, podcastSpecifics = None,
       onlySeason = Some True, completeShow = None, completePodcast = None,
       animeAllEpisodesBefore = None, mangaAllChaptersBefore = None,
       showSeasonNumber = Some 2, showEpisodeNumber = None, podcastEpisodeNumber = None,
       animeEpisodeNumber = None, mangaChapterNumber = None \<rparr>
     = Inl (InvariantError ''No season selected'')
   \<and> expand
     \<lparr> metadataLot = Show, metadataId = 7, date = None, redirectTo = None,
       showSpecifics = None, showAllSeasonsBefore = None, podcastSpecifics = None,
       onlySeason = None, completeShow = None, completePodcast = None,
       animeAllEpisodesBefore = None, mangaAllChaptersBefore = None,
       showSeasonNumber = Some 2, showEpisodeNumber = Some 5, podcastEpisodeNumber = None,
       animeEpisodeNumber = None, mangaChapterNumber = None \<rparr>
     [\<lparr> seasonNumber = 1, episodes = [1] \<rparr>] []
     = Inr [\<lparr> metadataId_u = 7, progress_u = 100, date_u = None,
              showSeasonNumber_u = Some 2, showEpisodeNumber_u = Some 5,
              podcastEpisodeNumber_u = None, animeEpisodeNumber_u = None,
              mangaChapterNumber_u = None \<rparr>]
   \<and> expand
     \<lparr> metadataLot = Podcast, metadataId = 7, date = None, redirectTo = None,
       showSpecifics = None, showAllSeasonsBefore = None, podcastSpecifics = None,
       onlySeason = None, completeShow = None, completePodcast = None,
       animeAllEpisodesBefore = None, mangaAllChaptersBefore = None,
       showSeasonNumber = None, showEpisodeNumber = None, podcastEpisodeNumber = Some 9,
       animeEpisodeNumber = None, mangaChapterNumber = None \<rparr>
     [] [\<lparr> episodeNumber = 1 \<rparr>]
     = Inr [\<lparr> metadataId_u = 7, progress_u = 100, date_u = None,
              showSeasonNumber_u = None, showEpisodeNumber_u = None,
              podcastEpisodeNumber_u = Some 9, animeEpisodeNumber_u = None,
              mangaChapterNumber_u = None \<rparr>]"
proof -
  let ?s = "\<lparr> metadataLot = Show, metadataId = 7, date = None, redirectTo = None,
       showSpecifics = None, showAllSeasonsBefore = None, podcastSpecifics = None,
       onlySeason = Some True, completeShow = None, completePodcast = None,
       animeAllEpisodesBefore = None, mangaAllChaptersBefore = None,
       showSeasonNumber = Some 2, showEpisodeNumber = None, podcastEpisodeNumber = None,
       animeEpisodeNumber = None, mangaChapterNumber = None \<rparr>"
  let ?e = "\<lparr> metadataLot = Show, metadataId = 7, date = None, redirectTo = None,
       showSpecifics = None, showAllSeasonsBefore = None, podcastSpecifics = None,
       onlySeason = None, completeShow = None, completePodcast = None,
       animeAllEpisodesBefore = None, mangaAllChaptersBefore = None,
       showSeasonNumber = Some 2, showEpisodeNumber = Some 5, podcastEpisodeNumber = None,
       animeEpisodeNumber = None, mangaChapterNumber = None \<rparr>"
  let ?p = "\<lparr> metadataLot = Podcast, metadataId = 7, date = None, redirectTo = None,
       showSpecifics = None, showAllSeasonsBefore = None, podcastSpecifics = None,
       onlySeason = None, completeShow = None, completePodcast = None,
       animeAllEpisodesBefore = None, mangaAllChaptersBefore = None,
       showSeasonNumber = None, showEpisodeNumber = None, podcastEpisodeNumber = Some 9,
       animeEpisodeNumber = None, mangaChapterNumber = None \<rparr>"
  show ?thesis
    using expand_fails_iff [of ?s "[\<lparr> seasonNumber = 1, episodes = [1] \<rparr>]" "[]"]
      expand_fails_iff [of ?s "[]" "[]"]
      expand_fails_iff [of ?e "[\<lparr> seasonNumber = 1, episodes = [1] \<rparr>]" "[]"]
      expand_fails_iff [of ?p "[]" "[\<lparr> episodeNumber = 1 \<rparr>]"]
    by (simp add: variables_def)
qed

section \<open>A complete show\<close>

text \<open>
  C3. For a show that is marked complete (and no single season asked for), the action
  builds one record per season and episode, in the order of the structure, and nothing
  else: as many records as the seasons have episodes in total.
\<close>

theorem complete_show_records:
  assumes "metadataLot sub = Show" and "completeShow sub = Some True"
    and "onlySeason sub \<noteq> Some True"
  shows "\<exists>us. expand sub S P = Inr us
     \<and> us = concat (map (\<lambda>s. map (\<lambda>episode. (variables sub)
                \<lparr> showSeasonNumber_u := Some (seasonNumber s),
                  showEpisodeNumber_u := Some episode \<rparr>) (episodes s)) S)
     \<and> length us = sum_list (map (\<lambda>s. length (episodes s)) S)"
proof -
  have "expand sub S P = Inr (season_records (variables sub) S)"
    using assms by (simp add: expand_Show truthy_def)
  moreover have "season_records (variables sub) S =
      concat (map (\<lambda>s. map (\<lambda>episode. (variables sub)
                \<lparr> showSeasonNumber_u := Some (seasonNumber s),
                  showEpisodeNumber_u := Some episode \<rparr>) (episodes s)) S)"
    by (simp add: season_records_def show_record_def [abs_def])
  ultimately show ?thesis
    using length_season_records [of "variables sub" S] by simp
qed

theorem complete_show_records_witness:
  "\<exists>us. expand
     \<lparr> metadataLot = Show, metadataId = 7, date = None, redirectTo = None,
       showSpecifics = None, showAllSeasonsBefore = None, podcastSpecifics = None,
       onlySeason = None, completeShow = Some True, completePodcast = None,
       animeAllEpisodesBefore = None, mangaAllChaptersBefore = None,
       showSeasonNumber = None, showEpisodeNumber = None, podcastEpisodeNumber = None,
       animeEpisodeNumber = None, mangaChapterNumber = None \<rparr>
     [\<lparr> seasonNumber = 1, episodes = [1, 2] \<rparr>, \<lparr> seasonNumber = 2, episodes = [1] \<rparr>] [] = Inr us
    \<and> map (\<lambda>u. (showSeasonNumber_u u, showEpisodeNumber_u u)) us =
        [(Some 1, Some 1), (Some 1, Some 2), (Some 2, Some 1)]
    \<and> length us = 3"
proof -
  let ?s = "\<lparr> metadataLot = Show, metadataId = 7, date = None, redirectTo = None,
       showSpecifics = None, showAllSeasonsBefore = None, podcastSpecifics = None,
       onlySeason = None, completeShow = Some True, completePodcast = None,
       animeAllEpisodesBefore = None, mangaAllChaptersBefore = None,
       showSeasonNumber = None, showEpisodeNumber = None, podcastEpisodeNumber = None,
       animeEpisodeNumber = None, mangaChapterNumber = None \<rparr>"
  show ?thesis
    using complete_show_records [of ?s
        "[\<lparr> seasonNumber = 1, episodes = [1, 2] \<rparr>, \<lparr> seasonNumber = 2, episodes = [1] \<rparr>]" "[]"]
    by simp
qed

section \<open>The mapping of the Strong app\<close>

text \<open>
  C4, as stated, fails: a mapping that is not JSON makes the action fail with the syntax
  error of \<^verbatim>\<open>JSON.parse\<close>, not with a validation error that names the field, and the
  action does not look at the shape of the decoded mapping. Here \<^verbatim>\<open>not json\<close> gives
  the syntax error and \<^verbatim>\<open>null\<close>, which is no array, is forwarded.
\<close>

theorem strong_app_syntax_error_counterexample:
  \<open>deployImport (\<lambda>u. False) [''exportPath'' \<mapsto> ''x.csv'', ''mapping'' \<mapsto> ''not json''] StrongApp
     = Inl SyntaxError
   \<and> deployImport (\<lambda>u. False) [''exportPath'' \<mapsto> ''x.csv'', ''mapping'' \<mapsto> ''not json''] StrongApp
     \<noteq> Inl (ValidationError ''mapping'')
   \<and> deployImport (\<lambda>u. False) [''exportPath'' \<mapsto> ''x.csv'', ''mapping'' \<mapsto> ''null''] StrongApp
     = Inr \<lparr> source = StrongApp, goodreads = None, trakt = None, audiobookshelf = None,
             mediaTracker = None, movary = None, storyGraph = None, mal = None,
             strongApp = Some \<lparr> exportPath = ''x.csv'', mapping = JNull \<rparr>, json = None \<rparr>\<close>
  by (simp add: deployImport_StrongApp JSON_parse_not_json JSON_parse_samples only_source_def)

text \<open>
  C4, amended. For the Strong app with the export path present, the action passes the
  field \<^verbatim>\<open>mapping\<close> to \<^verbatim>\<open>JSON.parse\<close>. It fails exactly when the decoder rejects the
  text, and then with the decoder's syntax error: so for \<^verbatim>\<open>not json\<close>, for text after
  the value and for a comma before a closing brace. Otherwise it succeeds and forwards
  the decoded value as the mapping, whatever its shape: \<^verbatim>\<open>[]\<close> gives the empty list,
  a list of objects gives these objects, and an object that is no list is forwarded too,
  a key written twice having the value written last.
\<close>

theorem strong_app_mapping:
  assumes "formData ''exportPath'' = Some p"
  shows
    \<open>deployImport is_url (formData(''mapping'' \<mapsto> m)) StrongApp =
       (case JSON_parse m of
          Inl e \<Rightarrow> Inl SyntaxError
        | Inr j \<Rightarrow> Inr ((only_source StrongApp)
                   \<lparr> strongApp := Some \<lparr> exportPath = p, mapping = j \<rparr> \<rparr>))
     \<and> deployImport is_url (formData(''mapping'' \<mapsto> ''not json'')) StrongApp = Inl SyntaxError
     \<and> deployImport is_url (formData(''mapping'' \<mapsto> ''[] []'')) StrongApp = Inl SyntaxError
     \<and> deployImport is_url (formData(''mapping'' \<mapsto> ''[{"sourceName":"a",}]'')) StrongApp
         = Inl SyntaxError
     \<and> deployImport is_url (formData(''mapping'' \<mapsto> ''[]'')) StrongApp =
         Inr ((only_source StrongApp)
               \<lparr> strongApp := Some \<lparr> exportPath = p, mapping = JArray [] \<rparr> \<rparr>)
     \<and> deployImport is_url
           (formData(''mapping'' \<mapsto>
              ''[{"sourceName":"Bench Press","targetName":"bench"},[1.5,true,null]]''))
           StrongApp =
         Inr ((only_source StrongApp)
               \<lparr> strongApp := Some
                   \<lparr> exportPath = p,
                     mapping = JArray
                       [JObject [(units ''sourceName'', JString (units ''Bench Press'')),
                                 (units ''targetName'', JString (units ''bench''))],
                        JArray [JNumber (Dyadic 3 1), JBool True, JNull]] \<rparr> \<rparr>)
     \<and> deployImport is_url
           (formData(''mapping'' \<mapsto> ''{"targetName":"a","targetName":"b"}'')) StrongApp =
         Inr ((only_source StrongApp)
               \<lparr> strongApp := Some
                   \<lparr> exportPath = p,
                     mapping = JObject [(units ''targetName'', JString (units ''b''))] \<rparr> \<rparr>)\<close>
proof -
  have run: "deployImport is_url (formData(''mapping'' \<mapsto> t)) StrongApp =
       (case JSON_parse t of
          Inl e \<Rightarrow> Inl e
        | Inr j \<Rightarrow> Inr ((only_source StrongApp)
                   \<lparr> strongApp := Some \<lparr> exportPath = p, mapping = j \<rparr> \<rparr>))" for t
    using assms by (intro deployImport_StrongApp) simp_all
  have "deployImport is_url (formData(''mapping'' \<mapsto> m)) StrongApp =
       (case JSON_parse m of
          Inl e \<Rightarrow> Inl SyntaxError
        | Inr j \<Rightarrow> Inr ((only_source StrongApp)
                   \<lparr> strongApp := Some \<lparr> exportPath = p, mapping = j \<rparr> \<rparr>))"
    by (cases "JSON_parse m") (auto simp: run dest: JSON_parse_error)
  then show ?thesis
    by (simp add: run JSON_parse_not_json JSON_parse_empty_array JSON_parse_samples)
qed

theorem strong_app_mapping_witness:
  \<open>deployImport (\<lambda>u. False) [''exportPath'' \<mapsto> ''x.csv'', ''mapping'' \<mapsto> ''not json''] StrongApp
     = Inl SyntaxError
   \<and> deployImport (\<lambda>u. False) [''exportPath'' \<mapsto> ''x.csv'', ''mapping'' \<mapsto> ''[]''] StrongApp
     = Inr \<lparr> source = StrongApp, goodreads = None, trakt = None, audiobookshelf = None,
             mediaTracker = None, movary = None, storyGraph = None, mal = None,
             strongApp = Some \<lparr> exportPath = ''x.csv'', mapping = JArray [] \<rparr>, json = None \<rparr>
   \<and> deployImport (\<lambda>u. False)
       [''exportPath'' \<mapsto> ''x.csv'',
        ''mapping'' \<mapsto> ''{"targetName":"a","targetName":"b"}''] StrongApp
     = Inr \<lparr> source = StrongApp, goodreads = None, trakt = None, audiobookshelf = None,
             mediaTracker = None, movary = None, storyGraph = None, mal = None,
             strongApp = Some \<lparr> exportPath = ''x.csv'',
                                mapping = JObject [(units ''targetName'', JString (units ''b''))] \<rparr>,
             json = None \<rparr>\<close>
proof -
  have present: "[''exportPath'' \<mapsto> ''x.csv''] ''exportPath'' = Some ''x.csv''"
    by simp
  from strong_app_mapping
    [of "[''exportPath'' \<mapsto> ''x.csv'']" "''x.csv''" "\<lambda>u. False" "''[]''", OF present]
  show ?thesis
    by (simp add: only_source_def JSON_parse_empty_array)
qed

section \<open>Every import source\<close>

text \<open>
  C5. For every import source: when the form holds every field the source requires, the
  URL is well formed and the mapping is JSON, the action succeeds and its input holds
  exactly one object of values, the one of the source; with an empty form it fails with
  a validation error on the first required field; and it never succeeds when a required
  field is missing.
\<close>

theorem deploy_import_exhaustive:
  "((\<forall>f \<in> set (required_fields s). formData f \<noteq> None)
      \<and> (\<forall>u. formData ''apiUrl'' = Some u \<longrightarrow> is_url u)
      \<and> (\<forall>m. formData ''mapping'' = Some m \<longrightarrow> (\<exists>j. JSON_parse m = Inr j))
      \<longrightarrow> (\<exists>i. deployImport is_url formData s = Inr i \<and> source i = s
                \<and> populated i = [values_key s]))
   \<and> deployImport is_url Map.empty s = Inl (ValidationError (hd (required_fields s)))
   \<and> (deployImport is_url formData s = Inr i \<longrightarrow>
        (\<forall>f \<in> set (required_fields s). formData f \<noteq> None) \<and> populated i = [values_key s])"
proof (intro conjI impI)
  assume "(\<forall>f \<in> set (required_fields s). formData f \<noteq> None)
      \<and> (\<forall>u. formData ''apiUrl'' = Some u \<longrightarrow> is_url u)
      \<and> (\<forall>m. formData ''mapping'' = Some m \<longrightarrow> (\<exists>j. JSON_parse m = Inr j))"
  then obtain k where k: "deployImport is_url formData s = Inr k"
    using deployImport_total [of s formData is_url] by blast
  with deployImport_populated [OF k]
  show "\<exists>i. deployImport is_url formData s = Inr i \<and> source i = s
                \<and> populated i = [values_key s]"
    by simp
next
  show "deployImport is_url Map.empty s = Inl (ValidationError (hd (required_fields s)))"
    by (rule deployImport_empty)
next
  assume "deployImport is_url formData s = Inr i"
  then show "\<forall>f \<in> set (required_fields s). formData f \<noteq> None"
    by (rule deployImport_needs_fields)
next
  assume "deployImport is_url formData s = Inr i"
  then show "populated i = [values_key s]"
    by (simp add: deployImport_populated)
qed

theorem deploy_import_exhaustive_witness:
  "(\<exists>i. deployImport (\<lambda>u. u = ''http://host'')
       [''csvPath'' \<mapsto> ''a.csv'', ''username'' \<mapsto> ''me'', ''apiUrl'' \<mapsto> ''http://host'',
        ''apiKey'' \<mapsto> ''key'', ''ratings'' \<mapsto> ''r.csv'', ''history'' \<mapsto> ''h.csv'',
        ''watchlist'' \<mapsto> ''w.csv'', ''export'' \<mapsto> ''e.json'', ''animePath'' \<mapsto> ''a.xml'',
        ''mangaPath'' \<mapsto> ''m.xml'', ''exportPath'' \<mapsto> ''x.csv'', ''mapping'' \<mapsto> ''[]'']
       Audiobookshelf = Inr i
      \<and> source i = Audiobookshelf \<and> populated i = [''audiobookshelf''])
   \<and> (\<exists>i. deployImport (\<lambda>u. u = ''http://host'')
       [''csvPath'' \<mapsto> ''a.csv'', ''username'' \<mapsto> ''me'', ''apiUrl'' \<mapsto> ''http://host'',
        ''apiKey'' \<mapsto> ''key'', ''ratings'' \<mapsto> ''r.csv'', ''history'' \<mapsto> ''h.csv'',
        ''watchlist'' \<mapsto> ''w.csv'', ''export'' \<mapsto> ''e.json'', ''animePath'' \<mapsto> ''a.xml'',
        ''mangaPath'' \<mapsto> ''m.xml'', ''exportPath'' \<mapsto> ''x.csv'', ''mapping'' \<mapsto> ''[]'']
       StrongApp = Inr i
      \<and> source i = StrongApp \<and> populated i = [''strongApp''])
   \<and> deployImport (\<lambda>u. u = ''http://host'') Map.empty Movary = Inl (ValidationError ''ratings'')"
proof -
  let ?form = "[''csvPath'' \<mapsto> ''a.csv'', ''username'' \<mapsto> ''me'', ''apiUrl'' \<mapsto> ''http://host'',
        ''apiKey'' \<mapsto> ''key'', ''ratings'' \<mapsto> ''r.csv'', ''history'' \<mapsto> ''h.csv'',
        ''watchlist'' \<mapsto> ''w.csv'', ''export'' \<mapsto> ''e.json'', ''animePath'' \<mapsto> ''a.xml'',
        ''mangaPath'' \<mapsto> ''m.xml'', ''exportPath'' \<mapsto> ''x.csv'', ''mapping'' \<mapsto> ''[]'']"
  let ?url = "\<lambda>u. u = ''http://host''"
  have present: "\<forall>f \<in> set (required_fields s). ?form f \<noteq> None" for s
    by (cases s) (simp_all add: required_fields_def)
  have valid: "(\<forall>u. ?form ''apiUrl'' = Some u \<longrightarrow> ?url u)
      \<and> (\<forall>m. ?form ''mapping'' = Some m \<longrightarrow> (\<exists>j. JSON_parse m = Inr j))"
    by (simp add: JSON_parse_empty_array)
  have "\<exists>i. deployImport ?url ?form s = Inr i \<and> source i = s \<and> populated i = [values_key s]"
    for s
    using deploy_import_exhaustive [of s ?form ?url undefined] present [of s] valid
    by blast
  from this [of Audiobookshelf] this [of StrongApp]
    deploy_import_exhaustive [of Movary ?form ?url undefined]
  show ?thesis
    by (simp add: values_key_def required_fields_def)
qed

section \<open>Episodes of an anime\<close>

text \<open>
  C6. For an anime with episode number \<open>n \<ge> 1\<close>: when all episodes before are asked
  for, the action builds exactly \<open>n\<close> records whose anime episode numbers are
  \<open>1, 2, ..., n\<close> in ascending order; otherwise it builds exactly one record, with
  anime episode number \<open>n\<close>.
\<close>

theorem anime_episode_numbers:
  assumes "metadataLot sub = Anime" and "animeEpisodeNumber sub = Some n" and "1 \<le> n"
  shows "\<exists>us. expand sub S P = Inr us
           \<and> map animeEpisodeNumber_u us =
               (if animeAllEpisodesBefore sub = Some True then map Some [1..n] else [Some n])
           \<and> length us = (if animeAllEpisodesBefore sub = Some True then nat n else 1)"
  using assms
  by (simp add: expand_Anime truthy_def variables_def comp_def)

theorem anime_episode_numbers_witness:
  "(\<exists>us. expand \<lparr> metadataLot = Anime, metadataId = 7, date = None, redirectTo = None,
        showSpecifics = None, showAllSeasonsBefore = None, podcastSpecifics = None,
        onlySeason = None, completeShow = None, completePodcast = None,
        animeAllEpisodesBefore = Some True, mangaAllChaptersBefore = None,
        showSeasonNumber = None, showEpisodeNumber = None, podcastEpisodeNumber = None,
        animeEpisodeNumber = Some 5, mangaChapterNumber = None \<rparr> [] [] = Inr us
      \<and> map animeEpisodeNumber_u us = [Some 1, Some 2, Some 3, Some 4, Some 5]
      \<and> length us = 5)
   \<and> (\<exists>us. expand \<lparr> metadataLot = Anime, metadataId = 7, date = None, redirectTo = None,
        showSpecifics = None, showAllSeasonsBefore = None, podcastSpecifics = None,
        onlySeason = None, completeShow = None, completePodcast = None,
        animeAllEpisodesBefore = None, mangaAllChaptersBefore = None,
        showSeasonNumber = None, showEpisodeNumber = None, podcastEpisodeNumber = None,
        animeEpisodeNumber = Some 5, mangaChapterNumber = None \<rparr> [] [] = Inr us
      \<and> map animeEpisodeNumber_u us = [Some 5]
      \<and> length us = 1)"
proof -
  have five: "[1..5::int] = [1, 2, 3, 4, 5]"
    by (simp add: upto.simps)
  show ?thesis
    using anime_episode_numbers [of "\<lparr> metadataLot = Anime, metadataId = 7, date = None, redirectTo = None,
        showSpecifics = None, showAllSeasonsBefore = None, podcastSpecifics = None,
        onlySeason = None, completeShow = None, completePodcast = None,
        animeAllEpisodesBefore = Some True, mangaAllChaptersBefore = None,
        showSeasonNumber = None, showEpisodeNumber = None, podcastEpisodeNumber = None,
        animeEpisodeNumber = Some 5, mangaChapterNumber = None \<rparr>" 5 "[]" "[]"]
      anime_episode_numbers [of "\<lparr> metadataLot = Anime, metadataId = 7, date = None, redirectTo = None,
        showSpecifics = None, showAllSeasonsBefore = None, podcastSpecifics = None,
        onlySeason = None, completeShow = None, completePodcast = None,
        animeAllEpisodesBefore = None, mangaAllChaptersBefore = None,
        showSeasonNumber = None, showEpisodeNumber = None, podcastEpisodeNumber = None,
        animeEpisodeNumber = Some 5, mangaChapterNumber = None \<rparr>" 5 "[]" "[]"]
    by (simp add: five)
qed

section \<open>Empty lists\<close>

text \<open>
  C7, as stated, fails: with all seasons before asked for, a selected season without
  episodes does not make the list empty, since the earlier seasons contribute their
  episodes. Here season 2 is selected and has no episode; the list holds the two
  episodes of season 1.
\<close>

theorem empty_target_season_counterexample:
  "selectedSeason
     \<lparr> metadataLot = Show, metadataId = 7, date = None, redirectTo = None,
       showSpecifics = None, showAllSeasonsBefore = Some True, podcastSpecifics = None,
       onlySeason = Some True, completeShow = None, completePodcast = None,
       animeAllEpisodesBefore = None, mangaAllChaptersBefore = None,
       showSeasonNumber = Some 2, showEpisodeNumber = None, podcastEpisodeNumber = None,
       animeEpisodeNumber = None, mangaChapterNumber = None \<rparr>
     [\<lparr> seasonNumber = 1, episodes = [1, 2] \<rparr>, \<lparr> seasonNumber = 2, episodes = [] \<rparr>]
     = Some \<lparr> seasonNumber = 2, episodes = [] \<rparr>
   \<and> expand
     \<lparr> metadataLot = Show, metadataId = 7, date = None, redirectTo = None,
       showSpecifics = None, showAllSeasonsBefore = Some True, podcastSpecifics = None,
       onlySeason = Some True, completeShow = None, completePodcast = None,
       animeAllEpisodesBefore = None, mangaAllChaptersBefore = None,
       showSeasonNumber = Some 2, showEpisodeNumber = None, podcastEpisodeNumber = None,
       animeEpisodeNumber = None, mangaChapterNumber = None \<rparr>
     [\<lparr> seasonNumber = 1, episodes = [1, 2] \<rparr>, \<lparr> seasonNumber = 2, episodes = [] \<rparr>] []
     = Inr [\<lparr> metadataId_u = 7, progress_u = 100, date_u = None,
              showSeasonNumber_u = Some 1, showEpisodeNumber_u = Some 1,
              podcastEpisodeNumber_u = None, animeEpisodeNumber_u = None,
              mangaChapterNumber_u = None \<rparr>,
            \<lparr> metadataId_u = 7, progress_u = 100, date_u = None,
              showSeasonNumber_u = Some 1, showEpisodeNumber_u = Some 2,
              podcastEpisodeNumber_u = None, animeEpisodeNumber_u = None,
              mangaChapterNumber_u = None \<rparr>]"
  by (simp add: expand_Show selectedSeason_def truthy_def season_records_def show_record_def
      variables_def)

text \<open>
  C7, amended. When a single season is asked for, the season the action selects has no
  episode and, in case all seasons before are asked for, no season that the scan visits
  has an episode either, the list is empty: no error and no final record. The same holds
  for a podcast marked complete whose structure has no episode.
\<close>

theorem empty_season_or_podcast:
  "(metadataLot sub = Show \<and> completeShow sub \<noteq> Some True \<and> onlySeason sub = Some True
      \<and> selectedSeason sub S = Some sel \<and> episodes sel = []
      \<and> (showAllSeasonsBefore sub = Some True \<longrightarrow>
           (\<forall>s \<in> set (takeWhile (\<lambda>s. seasonNumber s \<le> seasonNumber sel) S). episodes s = []))
      \<longrightarrow> expand sub S P = Inr [])
   \<and> (metadataLot sub = Podcast \<and> completePodcast sub = Some True
      \<longrightarrow> expand sub S [] = Inr [])"
  by (auto simp: expand_Show expand_Podcast truthy_def season_records_empty)

theorem empty_season_or_podcast_witness:
  "expand
     \<lparr> metadataLot = Show, metadataId = 7, date = None, redirectTo = None,
       showSpecifics = None, showAllSeasonsBefore = None, podcastSpecifics = None,
       onlySeason = Some True, completeShow = None, completePodcast = None,
       animeAllEpisodesBefore = None, mangaAllChaptersBefore = None,
       showSeasonNumber = Some 2, showEpisodeNumber = None, podcastEpisodeNumber = None,
       animeEpisodeNumber = None, mangaChapterNumber = None \<rparr>
     [\<lparr> seasonNumber = 1, episodes = [1, 2] \<rparr>, \<lparr> seasonNumber = 2, episodes = [] \<rparr>] [] = Inr []
   \<and> expand
     \<lparr> metadataLot = Show, metadataId = 7, date = None, redirectTo = None,
       showSpecifics = None, showAllSeasonsBefore = Some True, podcastSpecifics = None,
       onlySeason = Some True, completeShow = None, completePodcast = None,
       animeAllEpisodesBefore = None, mangaAllChaptersBefore = None,
       showSeasonNumber = Some 2, showEpisodeNumber = None, podcastEpisodeNumber = None,
       animeEpisodeNumber = None, mangaChapterNumber = None \<rparr>
     [\<lparr> seasonNumber = 1, episodes = [] \<rparr>, \<lparr> seasonNumber = 2, episodes = [] \<rparr>] [] = Inr []
   \<and> expand
     \<lparr> metadataLot = Podcast, metadataId = 7, date = None, redirectTo = None,
       showSpecifics = None, showAllSeasonsBefore = None, podcastSpecifics = None,
       onlySeason = None, completeShow = None, completePodcast = Some True,
       animeAllEpisodesBefore = None, mangaAllChaptersBefore = None,
       showSeasonNumber = None, showEpisodeNumber = None, podcastEpisodeNumber = None,
       animeEpisodeNumber = None, mangaChapterNumber = None \<rparr> [] [] = Inr []"
proof -
  let ?one = "\<lparr> metadataLot = Show, metadataId = 7, date = None, redirectTo = None,
       showSpecifics = None, showAllSeasonsBefore = None, podcastSpecifics = None,
       onlySeason = Some True, completeShow = None, completePodcast = None,
       animeAllEpisodesBefore = None, mangaAllChaptersBefore = None,
       showSeasonNumber = Some 2, showEpisodeNumber = None, podcastEpisodeNumber = None,
       animeEpisodeNumber = None, mangaChapterNumber = None \<rparr>"
  let ?before = "\<lparr> metadataLot = Show, metadataId = 7, date = None, redirectTo = None,
       showSpecifics = None, showAllSeasonsBefore = Some True, podcastSpecifics = None,
       onlySeason = Some True, completeShow = None, completePodcast = None,
       animeAllEpisodesBefore = None, mangaAllChaptersBefore = None,
       showSeasonNumber = Some 2, showEpisodeNumber = None, podcastEpisodeNumber = None,
       animeEpisodeNumber = None, mangaChapterNumber = None \<rparr>"
  let ?p = "\<lparr> metadataLot = Podcast, metadataId = 7, date = None, redirectTo = None,
       showSpecifics = None, showAllSeasonsBefore = None, podcastSpecifics = None,
       onlySeason = None, completeShow = None, completePodcast = Some True,
       animeAllEpisodesBefore = None, mangaAllChaptersBefore = None,
       showSeasonNumber = None, showEpisodeNumber = None, podcastEpisodeNumber = None,
       animeEpisodeNumber = None, mangaChapterNumber = None \<rparr>"
  show ?thesis
    using empty_season_or_podcast [of ?one
        "[\<lparr> seasonNumber = 1, episodes = [1, 2] \<rparr>, \<lparr> seasonNumber = 2, episodes = [] \<rparr>]"
        "\<lparr> seasonNumber = 2, episodes = [] \<rparr>" "[]"]
      empty_season_or_podcast [of ?before
        "[\<lparr> seasonNumber = 1, episodes = [] \<rparr>, \<lparr> seasonNumber = 2, episodes = [] \<rparr>]"
        "\<lparr> seasonNumber = 2, episodes = [] \<rparr>" "[]"]
      empty_season_or_podcast [of ?p "[]" undefined "[]"]
    by (simp add: selectedSeason_def)
qed

section \<open>Common fields\<close>

text \<open>
  C8. Every record of the list that the action builds has the identifier and the date
  of the submission and the progress 100.
\<close>

theorem common_fields:
  assumes "expand sub S P = Inr us" and "u \<in> set us"
  shows "metadataId_u u = metadataId sub \<and> date_u u = date sub \<and> progress_u u = 100"
proof -
  have vars: "metadataId_u (variables sub) = metadataId sub"
    "date_u (variables sub) = date sub" "progress_u (variables sub) = 100"
    by (simp_all add: variables_def)
  consider "metadataLot sub = Anime" | "metadataLot sub = Manga" | "metadataLot sub = Podcast"
    | "metadataLot sub = Show" | "metadataLot sub \<notin> {Anime, Manga, Show, Podcast}"
    by auto
  then show ?thesis
  proof cases
    case 1
    with assms show ?thesis
      by (auto simp: expand_Anime vars split: if_splits option.splits)
  next
    case 2
    with assms show ?thesis
      by (auto simp: expand_Manga vars split: if_splits option.splits)
  next
    case 3
    with assms show ?thesis
      by (auto simp: expand_Podcast vars split: if_splits)
  next
    case 4
    with assms show ?thesis
      by (auto simp: expand_Show vars Let_def dest!: season_records_common
          split: if_splits option.splits)
  next
    case 5
    with assms show ?thesis
      by (auto simp: expand_other vars)
  qed
qed

theorem common_fields_witness:
  "expand
     \<lparr> metadataLot = Podcast, metadataId = 7, date = Some ''2024-01-01'', redirectTo = None,
       showSpecifics = None, showAllSeasonsBefore = None, podcastSpecifics = None,
       onlySeason = None, completeShow = None, completePodcast = Some True,
       animeAllEpisodesBefore = None, mangaAllChaptersBefore = None,
       showSeasonNumber = None, showEpisodeNumber = None, podcastEpisodeNumber = None,
       animeEpisodeNumber = None, mangaChapterNumber = None \<rparr> []
     [\<lparr> episodeNumber = 4 \<rparr>]
     = Inr [\<lparr> metadataId_u = 7, progress_u = 100, date_u = Some ''2024-01-01'',
              showSeasonNumber_u = None, showEpisodeNumber_u = None,
              podcastEpisodeNumber_u = Some 4, animeEpisodeNumber_u = None,
              mangaChapterNumber_u = None \<rparr>]
   \<and> metadataId_u \<lparr> metadataId_u = 7, progress_u = 100, date_u = Some ''2024-01-01'',
              showSeasonNumber_u = None, showEpisodeNumber_u = None,
              podcastEpisodeNumber_u = Some 4, animeEpisodeNumber_u = None,
              mangaChapterNumber_u = None \<rparr> = 7"
proof -
  let ?p = "\<lparr> metadataLot = Podcast, metadataId = 7, date = Some ''2024-01-01'', redirectTo = None,
       showSpecifics = None, showAllSeasonsBefore = None, podcastSpecifics = None,
       onlySeason = None, completeShow = None, completePodcast = Some True,
       animeAllEpisodesBefore = None, mangaAllChaptersBefore = None,
       showSeasonNumber = None, showEpisodeNumber = None, podcastEpisodeNumber = None,
       animeEpisodeNumber = None, mangaChapterNumber = None \<rparr>"
  let ?u = "\<lparr> metadataId_u = 7, progress_u = 100, date_u = Some ''2024-01-01'',
              showSeasonNumber_u = None, showEpisodeNumber_u = None,
              podcastEpisodeNumber_u = Some 4, animeEpisodeNumber_u = None,
              mangaChapterNumber_u = None \<rparr>"
  have run: "expand ?p [] [\<lparr> episodeNumber = 4 \<rparr>] = Inr [?u]"
    by (simp add: expand_Podcast truthy_def variables_def)
  have "?u \<in> set [?u]"
    by simp
  from common_fields [OF run this] run show ?thesis
    by simp
qed

section \<open>What the counted loop leaves alone\<close>

text \<open>
  C9. For an anime (a manga) with all episodes (chapters) before asked for and number
  \<open>n \<ge> 1\<close>, each of the \<open>n\<close> records agrees with \<open>variables\<close> on every field but
  the anime episode number (the manga chapter number); in particular the show and podcast
  numbers of the submission are copied into every record.
\<close>

theorem all_before_frame:
  "(metadataLot sub = Anime \<and> animeEpisodeNumber sub = Some n \<and> 1 \<le> n
      \<and> animeAllEpisodesBefore sub = Some True \<longrightarrow>
      (\<exists>us. expand sub S P = Inr us \<and> length us = nat n
         \<and> (\<forall>u \<in> set us.
               u\<lparr> animeEpisodeNumber_u := animeEpisodeNumber sub \<rparr> = variables sub
               \<and> showSeasonNumber_u u = showSeasonNumber sub
               \<and> showEpisodeNumber_u u = showEpisodeNumber sub
               \<and> podcastEpisodeNumber_u u = podcastEpisodeNumber sub)))
   \<and> (metadataLot sub = Manga \<and> mangaChapterNumber sub = Some n \<and> 1 \<le> n
      \<and> mangaAllChaptersBefore sub = Some True \<longrightarrow>
      (\<exists>us. expand sub S P = Inr us \<and> length us = nat n
         \<and> (\<forall>u \<in> set us.
               u\<lparr> mangaChapterNumber_u := mangaChapterNumber sub \<rparr> = variables sub
               \<and> showSeasonNumber_u u = showSeasonNumber sub
               \<and> showEpisodeNumber_u u = showEpisodeNumber sub
               \<and> podcastEpisodeNumber_u u = podcastEpisodeNumber sub)))"
  by (auto simp: expand_Anime expand_Manga truthy_def variables_def)

theorem all_before_frame_witness:
  "(\<exists>us. expand
       \<lparr> metadataLot = Anime, metadataId = 7, date = Some ''2024-01-01'', redirectTo = None,
         showSpecifics = None, showAllSeasonsBefore = None, podcastSpecifics = None,
         onlySeason = None, completeShow = None, completePodcast = None,
         animeAllEpisodesBefore = Some True, mangaAllChaptersBefore = None,
         showSeasonNumber = Some 3, showEpisodeNumber = Some 4, podcastEpisodeNumber = Some 6,
         animeEpisodeNumber = Some 2, mangaChapterNumber = None \<rparr> [] [] = Inr us
      \<and> length us = 2
      \<and> (\<forall>u \<in> set us. showSeasonNumber_u u = Some 3 \<and> showEpisodeNumber_u u = Some 4
            \<and> podcastEpisodeNumber_u u = Some 6))
   \<and> (\<exists>us. expand
       \<lparr> metadataLot = Manga, metadataId = 7, date = Some ''2024-01-01'', redirectTo = None,
         showSpecifics = None, showAllSeasonsBefore = None, podcastSpecifics = None,
         onlySeason = None, completeShow = None, completePodcast = None,
         animeAllEpisodesBefore = None, mangaAllChaptersBefore = Some True,
         showSeasonNumber = Some 3, showEpisodeNumber = Some 4, podcastEpisodeNumber = Some 6,
         animeEpisodeNumber = None, mangaChapterNumber = Some 2 \<rparr> [] [] = Inr us
      \<and> length us = 2
      \<and> (\<forall>u \<in> set us. showSeasonNumber_u u = Some 3 \<and> showEpisodeNumber_u u = Some 4
            \<and> podcastEpisodeNumber_u u = Some 6))"
proof -
  let ?a = "\<lparr> metadataLot = Anime, metadataId = 7, date = Some ''2024-01-01'', redirectTo = None,
         showSpecifics = None, showAllSeasonsBefore = None, podcastSpecifics = None,
         onlySeason = None, completeShow = None, completePodcast = None,
         animeAllEpisodesBefore = Some True, mangaAllChaptersBefore = None,
         showSeasonNumber = Some 3, showEpisodeNumber = Some 4, podcastEpisodeNumber = Some 6,
         animeEpisodeNumber = Some 2, mangaChapterNumber = None \<rparr>"
  let ?m = "\<lparr> metadataLot = Manga, metadataId = 7, date = Some ''2024-01-01'', redirectTo = None,
         showSpecifics = None, showAllSeasonsBefore = None, podcastSpecifics = None,
         onlySeason = None, completeShow = None, completePodcast = None,
         animeAllEpisodesBefore = None, mangaAllChaptersBefore = Some True,
         showSeasonNumber = Some 3, showEpisodeNumber = Some 4, podcastEpisodeNumber = Some 6,
         animeEpisodeNumber = None, mangaChapterNumber = Some 2 \<rparr>"
  show ?thesis
    using all_before_frame [of ?a 2 "[]" "[]"] all_before_frame [of ?m 2 "[]" "[]"]
    by auto
qed

section \<open>No episode or chapter number\<close>

text \<open>
  C10. For an anime (a manga) whose episode (chapter) number is absent or \<open>0\<close>, the
  action builds exactly one record, \<open>variables\<close>, whatever the flag for all episodes
  (chapters) before says.
\<close>

theorem no_number_single_record:
  "(metadataLot sub = Anime
      \<and> (animeEpisodeNumber sub = None \<or> animeEpisodeNumber sub = Some 0) \<longrightarrow>
      expand sub S P = Inr [variables sub])
   \<and> (metadataLot sub = Manga
      \<and> (mangaChapterNumber sub = None \<or> mangaChapterNumber sub = Some 0) \<longrightarrow>
      expand sub S P = Inr [variables sub])"
  by (auto simp: expand_Anime expand_Manga)

theorem no_number_single_record_witness:
  "expand
     \<lparr> metadataLot = Anime, metadataId = 7, date = None, redirectTo = None,
       showSpecifics = None, showAllSeasonsBefore = None, podcastSpecifics = None,
       onlySeason = None, completeShow = None, completePodcast = None,
       animeAllEpisodesBefore = Some True, mangaAllChaptersBefore = None,
       showSeasonNumber = None, showEpisodeNumber = None, podcastEpisodeNumber = None,
       animeEpisodeNumber = Some 0, mangaChapterNumber = None \<rparr> [] []
     = Inr [\<lparr> metadataId_u = 7, progress_u = 100, date_u = None,
              showSeasonNumber_u = None, showEpisodeNumber_u = None,
              podcastEpisodeNumber_u = None, animeEpisodeNumber_u = Some 0,
              mangaChapterNumber_u = None \<rparr>]
   \<and> expand
     \<lparr> metadataLot = Manga, metadataId = 7, date = None, redirectTo = None,
       showSpecifics = None, showAllSeasonsBefore = None, podcastSpecifics = None,
       onlySeason = None, completeShow = None, completePodcast = None,
       animeAllEpisodesBefore = None, mangaAllChaptersBefore = Some True,
       showSeasonNumber = None, showEpisodeNumber = None, podcastEpisodeNumber = None,
       animeEpisodeNumber = None, mangaChapterNumber = None \<rparr> [] []
     = Inr [\<lparr> metadataId_u = 7, progress_u = 100, date_u = None,
              showSeasonNumber_u = None, showEpisodeNumber_u = None,
              podcastEpisodeNumber_u = None, animeEpisodeNumber_u = None,
              mangaChapterNumber_u = None \<rparr>]"
proof -
  let ?a = "\<lparr> metadataLot = Anime, metadataId = 7, date = None, redirectTo = None,
       showSpecifics = None, showAllSeasonsBefore = None, podcastSpecifics = None,
       onlySeason = None, completeShow = None, completePodcast = None,
       animeAllEpisodesBefore = Some True, mangaAllChaptersBefore = None,
       showSeasonNumber = None, showEpisodeNumber = None, podcastEpisodeNumber = None,
       animeEpisodeNumber = Some 0, mangaChapterNumber = None \<rparr>"
  let ?m = "\<lparr> metadataLot = Manga, metadataId = 7, date = None, redirectTo = None,
       showSpecifics = None, showAllSeasonsBefore = None, podcastSpecifics = None,
       onlySeason = None, completeShow = None, completePodcast = None,
       animeAllEpisodesBefore = None, mangaAllChaptersBefore = Some True,
       showSeasonNumber = None, showEpisodeNumber = None, podcastEpisodeNumber = None,
       animeEpisodeNumber = None, mangaChapterNumber = None \<rparr>"
  show ?thesis
    using no_number_single_record [of ?a "[]" "[]"] no_number_single_record [of ?m "[]" "[]"]
    by (simp add: variables_def)
qed

end
